theory Spec2Isabelle
  imports Main "HOL-Library.Sublist"
begin

section \<open>Lowering of Arcaea chart files: data model\<close>

text \<open>
  The development follows the server of the Arcaea file format extension: the pass
  from the concrete syntax tree (CST) of a chart to its abstract syntax tree (AST),
  and the checkers that run on the AST. Every function that reports problems gets the
  array \<open>errors\<close> and pushes to it; here it takes the list and returns the extended one.
  A JavaScript \<open>throw\<close> is the left summand of the result.
\<close>

subsection \<open>Locations, tokens and diagnostics\<close>

record CstNodeLocation =
  startOffset :: nat
  startLine :: nat
  startColumn :: nat
  endOffset :: nat
  endLine :: nat
  endColumn :: nat

text \<open>
  The token types come from the lexer. The lowering pass tells three of them apart
  and throws on every other one.
\<close>

datatype TokenType = tt_word | tt_int | tt_float | tt_other string

record IToken = CstNodeLocation +
  image :: string
  tokenType :: TokenType

datatype 'a WithLocation = WithLocation (data: 'a) (location: CstNodeLocation)

datatype DiagnosticSeverity = Error | Warning | Information | Hint

datatype AFFErrorRelatedInfo = AFFErrorRelatedInfo string CstNodeLocation

record AFFError =
  message :: string
  errorLocation :: CstNodeLocation
  severity :: DiagnosticSeverity
  relatedInfo :: "AFFErrorRelatedInfo list option"

text \<open>What a \<open>throw\<close> of the pass, or a read of a field of \<open>undefined\<close>, carries.\<close>

datatype thrown =
    UnknownTokenType TokenType
  | ValueNotInt
  | TypeError

subsection \<open>Scalar values\<close>

text \<open>
  A JavaScript number that came out of \<open>parseInt\<close>: an integer, or a value for which
  \<open>Number.isInteger\<close> is false (\<open>NaN\<close> when the text has no digits, \<open>Infinity\<close>
  when the digits exceed the range of a double). Rounding of integers beyond \<open>2^53\<close>
  to the nearest double is left out: the pass only compares with the constants 0 to 4.
\<close>

datatype number = Integer int | NotInteger

text \<open>
  The number of a float literal is \<open>parseFloat\<close> of its text. No function here looks
  at it, so it is kept as the text it is computed from.
\<close>

datatype floatnum = ParseFloat string

datatype AFFInt = AFFInt (int_value: number)
datatype AFFFloat = AFFFloat (float_value: floatnum) (digit: int)
datatype AFFWord = AFFWord (word_value: string)

datatype AFFValue = VInt AFFInt | VFloat AFFFloat | VWord AFFWord

fun valueKind :: "AFFValue \<Rightarrow> string" where
  "valueKind (VInt v) = ''int''"
| "valueKind (VFloat v) = ''float''"
| "valueKind (VWord v) = ''word''"

subsection \<open>Domain values\<close>

datatype AFFTrackId = AFFTrackId (trackIdValue: int)
datatype AFFColorId = AFFColorId (colorIdValue: int)
datatype AFFEffect = AFFEffect (effectValue: string)
datatype AFFArcKind = AFFArcKind (arcKindValue: string)
datatype AFFBool = AFFBool (boolValue: bool)

definition affTrackIds :: "int list" where
  "affTrackIds = [1, 2, 3, 4]"

definition affColorIds :: "int list" where
  "affColorIds = [0, 1, 2]"

definition affEffects :: "string list" where
  "affEffects = [''none'', ''full'', ''incremental'']"

definition affArcKinds :: "string list" where
  "affArcKinds = [''b'', ''s'', ''si'', ''so'', ''sisi'', ''siso'', ''soso'', ''sosi'']"

definition affBools :: "string list" where
  "affBools = [''true'', ''false'']"

subsection \<open>Events, metadata and the file\<close>

text \<open>
  The fields of an event are in the order of the source's object literals: the tag
  location first where the kind has one, then \<open>time\<close> or \<open>start\<close> and \<open>end\<close>, then
  the other values in the order of the chart's notation; an arc ends with \<open>arctaps\<close>.
\<close>

datatype AFFArctapEvent = AFFArctapEvent CstNodeLocation "AFFInt WithLocation"

datatype AFFEvent =
    Timing CstNodeLocation "AFFInt WithLocation" "AFFFloat WithLocation" "AFFFloat WithLocation"
  | Tap "AFFInt WithLocation" "AFFTrackId WithLocation"
  | Hold CstNodeLocation "AFFInt WithLocation" "AFFInt WithLocation" "AFFTrackId WithLocation"
  | Arc CstNodeLocation "AFFInt WithLocation" "AFFInt WithLocation" "AFFFloat WithLocation"
      "AFFFloat WithLocation" "AFFArcKind WithLocation" "AFFFloat WithLocation"
      "AFFFloat WithLocation" "AFFColorId WithLocation" "AFFEffect WithLocation"
      "AFFBool WithLocation" "AFFArctapEvent WithLocation list WithLocation option"
  | Arctap CstNodeLocation "AFFInt WithLocation"

fun kindOfEvent :: "AFFEvent \<Rightarrow> string" where
  "kindOfEvent (Timing tg t b s) = ''timing''"
| "kindOfEvent (Tap t k) = ''tap''"
| "kindOfEvent (Hold tg s e k) = ''hold''"
| "kindOfEvent (Arc tg s e xs xe ak ys ye c ef l ats) = ''arc''"
| "kindOfEvent (Arctap tg t) = ''arctap''"

datatype AFFMetadataEntry =
  AFFMetadataEntry (entryKey: "string WithLocation") (entryValue: "string WithLocation")

text \<open>
  The metadata is a JavaScript \<open>Map\<close>, which keeps its keys in the order of their first
  insertion: an association list that is only ever extended at its end, by a key it does
  not hold.
\<close>

datatype AFFMetadata =
  AFFMetadata (metadataData: "(string \<times> AFFMetadataEntry WithLocation) list")
    (metaEndLocation: CstNodeLocation)

datatype AFFFile =
  AFFFile (fileMetadata: "AFFMetadata WithLocation") (fileItems: "AFFEvent WithLocation list")

subsection \<open>The concrete syntax tree\<close>

text \<open>
  The grammar is not part of the pass. A node of the tree has a location and, per name,
  the list of its children; each type below has the children that the visitor method
  of that name reads. A list that the grammar leaves out is the empty list.
\<close>

datatype CstMetadataEntry =
  CstMetadataEntry (entryLocation: CstNodeLocation) (keyToken: IToken) (dataToken: IToken)

datatype CstMetadata =
  CstMetadata (metadataLocation: CstNodeLocation) (metadataEntries: "CstMetadataEntry list")
    (metaEnd: IToken)

datatype CstValues =
  CstValues (valuesNodeLocation: CstNodeLocation) (valueTokens: "IToken list")

datatype CstEvent =
  CstEvent (eventLocation: CstNodeLocation) (eventWord: "IToken option")
    (eventValues: CstValues) (eventSubevents: "CstSubevents option")
and CstSubevents =
  CstSubevents (subeventsNodeLocation: CstNodeLocation) (subeventsEvents: "CstEvent list")

datatype CstItem = CstItem (itemEvent: CstEvent)

datatype CstItems = CstItems (itemsItems: "CstItem list")

datatype CstAff = CstAff (affMetadata: CstMetadata) (affItems: CstItems)

section \<open>The functions of the JavaScript library that the pass calls\<close>

text \<open>A template literal prints a number in decimal (\<open>Number.prototype.toString\<close>).\<close>

definition digitChar :: "nat \<Rightarrow> char" where
  "digitChar d = ''0123456789'' ! d"

fun decimal :: "nat \<Rightarrow> string" where
  "decimal n =
     (if 10 \<le> n then decimal (n div 10) @ [digitChar (n mod 10)] else [digitChar n])"

declare decimal.simps [simp del]

definition numberToString :: "int \<Rightarrow> string" where
  "numberToString i = (if 0 \<le> i then decimal (nat i) else CHR ''-'' # decimal (nat (- i)))"

text \<open>\<open>Array.prototype.join\<close> with its default separator.\<close>

fun join :: "string list \<Rightarrow> string" where
  "join [] = []"
| "join [s] = s"
| "join (s # t # ss) = s @ '','' @ join (t # ss)"

text \<open>\<open>String.prototype.indexOf\<close> for a single character: \<open>-1\<close> when it does not occur.\<close>

fun indexOf :: "string \<Rightarrow> char \<Rightarrow> int" where
  "indexOf [] c = - 1"
| "indexOf (x # xs) c =
     (if x = c then 0 else (let i = indexOf xs c in if i < 0 then - 1 else i + 1))"

text \<open>
  \<open>parseInt\<close> without a radix: white space is skipped, then a sign, then \<open>0x\<close> or
  \<open>0X\<close> selects radix 16; the longest run of digits of the radix is the number, and
  no digit at all gives \<open>NaN\<close>. Characters are bytes here, so the white space is the
  ASCII one.
\<close>

definition isWhiteSpace :: "char \<Rightarrow> bool" where
  "isWhiteSpace c \<longleftrightarrow> c \<in> set [CHR 0x09, CHR 0x0A, CHR 0x0B, CHR 0x0C, CHR 0x0D, CHR 0x20]"

definition digitValue :: "char \<Rightarrow> nat option" where
  "digitValue c =
     (let n = (of_char c :: nat) in
      if 48 \<le> n \<and> n \<le> 57 then Some (n - 48)
      else if 97 \<le> n \<and> n \<le> 122 then Some (n - 87)
      else if 65 \<le> n \<and> n \<le> 90 then Some (n - 55)
      else None)"

fun radixDigits :: "nat \<Rightarrow> string \<Rightarrow> nat list" where
  "radixDigits R [] = []"
| "radixDigits R (c # cs) =
     (case digitValue c of
        None \<Rightarrow> []
      | Some d \<Rightarrow> if d < R then d # radixDigits R cs else [])"

text \<open>An integer from \<open>2^1024 - 2^970\<close> on rounds to \<open>Infinity\<close>.\<close>

definition toNumber :: "int \<Rightarrow> number" where
  "toNumber i = (if \<bar>i\<bar> < 2 ^ 1024 - 2 ^ 970 then Integer i else NotInteger)"

definition parseInt :: "string \<Rightarrow> number" where
  "parseInt s =
     (let S = dropWhile isWhiteSpace s;
          sign = (if take 1 S = ''-'' then - 1 else 1 :: int);
          S = (if take 1 S = ''+'' \<or> take 1 S = ''-'' then drop 1 S else S);
          R = (if take 2 S = ''0x'' \<or> take 2 S = ''0X'' then 16 else 10 :: nat);
          S = (if take 2 S = ''0x'' \<or> take 2 S = ''0X'' then drop 2 S else S);
          Z = radixDigits R S
      in if Z = [] then NotInteger
         else toNumber (sign * int (foldl (\<lambda>a d. a * R + d) 0 Z)))"

section \<open>The lowering pass\<close>

subsection \<open>Helpers\<close>

definition locationFromToken :: "IToken \<Rightarrow> CstNodeLocation" where
  "locationFromToken token =
     \<lparr>startOffset = startOffset token, startLine = startLine token,
      startColumn = startColumn token, endOffset = endOffset token,
      endLine = endLine token, endColumn = endColumn token\<rparr>"

text \<open>
  Sequencing: a call that threw ends the pass; otherwise the rest runs on the value and
  on the list of errors that the call returned.
\<close>

definition andThen ::
  "thrown + ('a \<times> AFFError list) \<Rightarrow> ('a \<Rightarrow> AFFError list \<Rightarrow> thrown + 'b) \<Rightarrow> thrown + 'b" where
  "andThen r f = (case r of Inl x \<Rightarrow> Inl x | Inr (a, errors) \<Rightarrow> f a errors)"

text \<open>
  The parameters \<open>subevents\<close> and \<open>subeventsLocation\<close> of the transformers may be \<open>null\<close>.
  \<open>event\<close>, their only caller, takes both from the same child of the node, so that one is
  \<open>null\<close> exactly when the other is; the location is read only where \<open>subevents\<close> is not
  \<open>null\<close>.
\<close>

definition rejectSubevent ::
  "AFFError list \<Rightarrow> string \<Rightarrow> AFFEvent WithLocation list option \<Rightarrow> CstNodeLocation option
   \<Rightarrow> AFFError list" where
  "rejectSubevent errors kind subevents subeventsLocation =
     (if subevents \<noteq> None then
        errors @
        [\<lparr>message = ''Event with type \"'' @ kind @ ''\" should not have subevents.'',
          errorLocation = the subeventsLocation,
          severity = Error,
          relatedInfo = None\<rparr>]
      else errors)"

definition checkValuesCount ::
  "AFFError list \<Rightarrow> string \<Rightarrow> nat \<Rightarrow> AFFValue WithLocation list \<Rightarrow> CstNodeLocation
   \<Rightarrow> bool \<times> AFFError list" where
  "checkValuesCount errors kind count values valuesLocation =
     (if length values \<noteq> count then
        (False, errors @
          [\<lparr>message = ''Event with type \"'' @ kind @ ''\" should have '' @ decimal count
              @ '' field(s) instead of '' @ decimal (length values) @ '' field(s).'',
            errorLocation = valuesLocation,
            severity = Error,
            relatedInfo = None\<rparr>])
      else (True, errors))"

text \<open>
  \<open>checkValueType\<close> has a type parameter, the kind of value it expects, and returns
  the value at that type. There is one copy per kind. \<open>values[id]\<close> beyond the end of
  the array is \<open>undefined\<close>, and the read of its \<open>data\<close> throws.
\<close>

definition valueTypeMismatch ::
  "string \<Rightarrow> string \<Rightarrow> string \<Rightarrow> AFFValue WithLocation \<Rightarrow> AFFError" where
  "valueTypeMismatch eventKind fieldname kind value =
     \<lparr>message = ''The value in the \"'' @ fieldname @ ''\" field of event with type \"''
        @ eventKind @ ''\" should be \"'' @ kind @ ''\" instead of \"''
        @ valueKind (data value) @ ''\"'',
      errorLocation = location value,
      severity = Error,
      relatedInfo = None\<rparr>"

definition checkValueType_int ::
  "AFFError list \<Rightarrow> string \<Rightarrow> string \<Rightarrow> AFFValue WithLocation list \<Rightarrow> nat
   \<Rightarrow> thrown + (AFFInt WithLocation option \<times> AFFError list)" where
  "checkValueType_int errors eventKind fieldname values idx =
     (if idx < length values then
        (let value = values ! idx in
         case data value of
           VInt v \<Rightarrow> Inr (Some (WithLocation v (location value)), errors)
         | _ \<Rightarrow> Inr (None, errors @ [valueTypeMismatch eventKind fieldname ''int'' value]))
      else Inl TypeError)"

definition checkValueType_float ::
  "AFFError list \<Rightarrow> string \<Rightarrow> string \<Rightarrow> AFFValue WithLocation list \<Rightarrow> nat
   \<Rightarrow> thrown + (AFFFloat WithLocation option \<times> AFFError list)" where
  "checkValueType_float errors eventKind fieldname values idx =
     (if idx < length values then
        (let value = values ! idx in
         case data value of
           VFloat v \<Rightarrow> Inr (Some (WithLocation v (location value)), errors)
         | _ \<Rightarrow> Inr (None, errors @ [valueTypeMismatch eventKind fieldname ''float'' value]))
      else Inl TypeError)"

definition checkValueType_word ::
  "AFFError list \<Rightarrow> string \<Rightarrow> string \<Rightarrow> AFFValue WithLocation list \<Rightarrow> nat
   \<Rightarrow> thrown + (AFFWord WithLocation option \<times> AFFError list)" where
  "checkValueType_word errors eventKind fieldname values idx =
     (if idx < length values then
        (let value = values ! idx in
         case data value of
           VWord v \<Rightarrow> Inr (Some (WithLocation v (location value)), errors)
         | _ \<Rightarrow> Inr (None, errors @ [valueTypeMismatch eventKind fieldname ''word'' value]))
      else Inl TypeError)"

subsection \<open>Value parsers\<close>

definition shouldBeOneOf ::
  "string \<Rightarrow> string \<Rightarrow> string list \<Rightarrow> CstNodeLocation \<Rightarrow> AFFError" where
  "shouldBeOneOf eventKind fieldname allowed loc =
     \<lparr>message = ''The value in the \"'' @ fieldname @ ''\" field of event with type \"''
        @ eventKind @ ''\" should be one of '' @ join allowed,
      errorLocation = loc,
      severity = Error,
      relatedInfo = None\<rparr>"

definition parseValue_trackId ::
  "AFFError list \<Rightarrow> string \<Rightarrow> string \<Rightarrow> AFFInt WithLocation option
   \<Rightarrow> thrown + (AFFTrackId WithLocation option \<times> AFFError list)" where
  "parseValue_trackId errors eventKind fieldname int' =
     (case int' of
        Some (WithLocation d loc) \<Rightarrow>
          (case int_value d of
             NotInteger \<Rightarrow> Inl ValueNotInt
           | Integer intValue \<Rightarrow>
               if intValue < 1 \<or> intValue > 4 then
                 Inr (None, errors @
                   [shouldBeOneOf eventKind fieldname (map numberToString affTrackIds) loc])
               else Inr (Some (WithLocation (AFFTrackId intValue) loc), errors))
      | None \<Rightarrow> Inr (None, errors))"

definition parseValue_colorId ::
  "AFFError list \<Rightarrow> string \<Rightarrow> string \<Rightarrow> AFFInt WithLocation option
   \<Rightarrow> thrown + (AFFColorId WithLocation option \<times> AFFError list)" where
  "parseValue_colorId errors eventKind fieldname int' =
     (case int' of
        Some (WithLocation d loc) \<Rightarrow>
          (case int_value d of
             NotInteger \<Rightarrow> Inl ValueNotInt
           | Integer intValue \<Rightarrow>
               if intValue < 0 \<or> intValue > 2 then
                 Inr (None, errors @
                   [shouldBeOneOf eventKind fieldname (map numberToString affColorIds) loc])
               else Inr (Some (WithLocation (AFFColorId intValue) loc), errors))
      | None \<Rightarrow> Inr (None, errors))"

definition parseValue_arcKind ::
  "AFFError list \<Rightarrow> string \<Rightarrow> string \<Rightarrow> AFFWord WithLocation option
   \<Rightarrow> thrown + (AFFArcKind WithLocation option \<times> AFFError list)" where
  "parseValue_arcKind errors eventKind fieldname word =
     (case word of
        Some (WithLocation d loc) \<Rightarrow>
          (let wordValue = word_value d in
           if wordValue \<notin> set affArcKinds then
             Inr (None, errors @ [shouldBeOneOf eventKind fieldname affArcKinds loc])
           else Inr (Some (WithLocation (AFFArcKind wordValue) loc), errors))
      | None \<Rightarrow> Inr (None, errors))"

definition parseValue_effect ::
  "AFFError list \<Rightarrow> string \<Rightarrow> string \<Rightarrow> AFFWord WithLocation option
   \<Rightarrow> thrown + (AFFEffect WithLocation option \<times> AFFError list)" where
  "parseValue_effect errors eventKind fieldname word =
     (case word of
        Some (WithLocation d loc) \<Rightarrow>
          (let wordValue = word_value d in
           if wordValue \<notin> set affEffects then
             Inr (None, errors @ [shouldBeOneOf eventKind fieldname affEffects loc])
           else Inr (Some (WithLocation (AFFEffect wordValue) loc), errors))
      | None \<Rightarrow> Inr (None, errors))"

definition parseValue_bool ::
  "AFFError list \<Rightarrow> string \<Rightarrow> string \<Rightarrow> AFFWord WithLocation option
   \<Rightarrow> thrown + (AFFBool WithLocation option \<times> AFFError list)" where
  "parseValue_bool errors eventKind fieldname word =
     (case word of
        Some (WithLocation d loc) \<Rightarrow>
          (let wordValue = word_value d in
           if wordValue \<notin> set affBools then
             Inr (None, errors @ [shouldBeOneOf eventKind fieldname affBools loc])
           else Inr (Some (WithLocation (AFFBool (wordValue = ''true'')) loc), errors))
      | None \<Rightarrow> Inr (None, errors))"

subsection \<open>Event transformers\<close>

text \<open>
  The loop of \<open>transformArcSubevents\<close>, with the array \<open>arctaps\<close> it fills. The test
  of \<open>event.kind\<close> against \<open>arctap\<close> is the match on the constructor; an event of that
  kind is pushed at the type of arctap events.
\<close>

fun transformArcSubevents_loop ::
  "AFFError list \<Rightarrow> AFFArctapEvent WithLocation list \<Rightarrow> AFFEvent WithLocation list
   \<Rightarrow> AFFArctapEvent WithLocation list \<times> AFFError list" where
  "transformArcSubevents_loop errors arctaps [] = (arctaps, errors)"
| "transformArcSubevents_loop errors arctaps (WithLocation event loc # rest) =
     (case event of
        Arctap tg t \<Rightarrow>
          transformArcSubevents_loop errors
            (arctaps @ [WithLocation (AFFArctapEvent tg t) loc]) rest
      | _ \<Rightarrow>
          transformArcSubevents_loop
            (errors @
             [\<lparr>message = ''Type of subevent of event with type \"arc\" should be \"arctap\" instead of \"''
                 @ kindOfEvent event @ ''\"'',
               errorLocation = loc,
               severity = Error,
               relatedInfo = None\<rparr>])
            arctaps rest)"

definition transformArcSubevents ::
  "AFFError list \<Rightarrow> AFFEvent WithLocation list \<Rightarrow> CstNodeLocation
   \<Rightarrow> AFFArctapEvent WithLocation list WithLocation \<times> AFFError list" where
  "transformArcSubevents errors subevents subeventsLocation =
     (let (arctaps, errors) = transformArcSubevents_loop errors [] subevents
      in (WithLocation arctaps subeventsLocation, errors))"

definition tap ::
  "AFFError list \<Rightarrow> AFFValue WithLocation list \<Rightarrow> CstNodeLocation
   \<Rightarrow> AFFEvent WithLocation list option \<Rightarrow> CstNodeLocation option
   \<Rightarrow> thrown + (AFFEvent option \<times> AFFError list)" where
  "tap errors values valuesLocation subevents subeventsLocation =
     (let errors = rejectSubevent errors ''tap'' subevents subeventsLocation;
          (ok, errors) = checkValuesCount errors ''tap'' 2 values valuesLocation
      in if \<not> ok then Inr (None, errors)
      else
        andThen (checkValueType_int errors ''tap'' ''time'' values 0) (\<lambda>time errors.
        andThen (checkValueType_int errors ''tap'' ''track-id'' values 1) (\<lambda>rawTrackId errors.
        andThen (parseValue_trackId errors ''tap'' ''track-id'' rawTrackId) (\<lambda>trackId errors.
        if time = None \<or> trackId = None then Inr (None, errors)
        else Inr (Some (Tap (the time) (the trackId)), errors)))))"

definition hold ::
  "AFFError list \<Rightarrow> AFFValue WithLocation list \<Rightarrow> CstNodeLocation
   \<Rightarrow> AFFEvent WithLocation list option \<Rightarrow> CstNodeLocation option \<Rightarrow> CstNodeLocation
   \<Rightarrow> thrown + (AFFEvent option \<times> AFFError list)" where
  "hold errors values valuesLocation subevents subeventsLocation tagLocation =
     (let errors = rejectSubevent errors ''hold'' subevents subeventsLocation;
          (ok, errors) = checkValuesCount errors ''hold'' 3 values valuesLocation
      in if \<not> ok then Inr (None, errors)
      else
        andThen (checkValueType_int errors ''hold'' ''start'' values 0) (\<lambda>start errors.
        andThen (checkValueType_int errors ''hold'' ''end'' values 1) (\<lambda>end' errors.
        andThen (checkValueType_int errors ''hold'' ''track-id'' values 2) (\<lambda>rawTrackId errors.
        andThen (parseValue_trackId errors ''hold'' ''track-id'' rawTrackId) (\<lambda>trackId errors.
        if start = None \<or> end' = None \<or> trackId = None then Inr (None, errors)
        else Inr (Some (Hold tagLocation (the start) (the end') (the trackId)), errors))))))"

definition arctap ::
  "AFFError list \<Rightarrow> AFFValue WithLocation list \<Rightarrow> CstNodeLocation
   \<Rightarrow> AFFEvent WithLocation list option \<Rightarrow> CstNodeLocation option \<Rightarrow> CstNodeLocation
   \<Rightarrow> thrown + (AFFEvent option \<times> AFFError list)" where
  "arctap errors values valuesLocation subevents subeventsLocation tagLocation =
     (let errors = rejectSubevent errors ''arctap'' subevents subeventsLocation;
          (ok, errors) = checkValuesCount errors ''arctap'' 1 values valuesLocation
      in if \<not> ok then Inr (None, errors)
      else
        andThen (checkValueType_int errors ''arctap'' ''time'' values 0) (\<lambda>time errors.
        if time = None then Inr (None, errors)
        else Inr (Some (Arctap tagLocation (the time)), errors)))"

definition timing ::
  "AFFError list \<Rightarrow> AFFValue WithLocation list \<Rightarrow> CstNodeLocation
   \<Rightarrow> AFFEvent WithLocation list option \<Rightarrow> CstNodeLocation option \<Rightarrow> CstNodeLocation
   \<Rightarrow> thrown + (AFFEvent option \<times> AFFError list)" where
  "timing errors values valuesLocation subevents subeventsLocation tagLocation =
     (let errors = rejectSubevent errors ''timing'' subevents subeventsLocation;
          (ok, errors) = checkValuesCount errors ''timing'' 3 values valuesLocation
      in if \<not> ok then Inr (None, errors)
      else
        andThen (checkValueType_int errors ''timing'' ''time'' values 0) (\<lambda>time errors.
        andThen (checkValueType_float errors ''timing'' ''bpm'' values 1) (\<lambda>bpm errors.
        andThen (checkValueType_float errors ''timing'' ''segment'' values 2) (\<lambda>segment errors.
        if time = None \<or> bpm = None \<or> segment = None then Inr (None, errors)
        else Inr (Some (Timing tagLocation (the time) (the bpm) (the segment)), errors)))))"

text \<open>
  \<open>arc\<close> hands \<open>subeventsLocation\<close> on to \<open>transformArcSubevents\<close> when \<open>subevents\<close>
  is not \<open>null\<close>; without subevents the field \<open>arctaps\<close> stays \<open>undefined\<close>.
\<close>

definition arc ::
  "AFFError list \<Rightarrow> AFFValue WithLocation list \<Rightarrow> CstNodeLocation
   \<Rightarrow> AFFEvent WithLocation list option \<Rightarrow> CstNodeLocation option \<Rightarrow> CstNodeLocation
   \<Rightarrow> thrown + (AFFEvent option \<times> AFFError list)" where
  "arc errors values valuesLocation subevents subeventsLocation tagLocation =
     (let (ok, errors) = checkValuesCount errors ''arc'' 10 values valuesLocation
      in if \<not> ok then Inr (None, errors)
      else
        andThen (checkValueType_int errors ''arc'' ''start'' values 0) (\<lambda>start errors.
        andThen (checkValueType_int errors ''arc'' ''end'' values 1) (\<lambda>end' errors.
        andThen (checkValueType_float errors ''arc'' ''x-start'' values 2) (\<lambda>xStart errors.
        andThen (checkValueType_float errors ''arc'' ''x-end'' values 3) (\<lambda>xEnd errors.
        andThen (checkValueType_word errors ''arc'' ''arc-kind'' values 4) (\<lambda>rawArcKind errors.
        andThen (parseValue_arcKind errors ''arc'' ''arc-kind'' rawArcKind) (\<lambda>arcKind errors.
        andThen (checkValueType_float errors ''arc'' ''y-start'' values 5) (\<lambda>yStart errors.
        andThen (checkValueType_float errors ''arc'' ''y-end'' values 6) (\<lambda>yEnd errors.
        andThen (checkValueType_int errors ''arc'' ''color-id'' values 7) (\<lambda>rawColorId errors.
        andThen (parseValue_colorId errors ''arc'' ''color-id'' rawColorId) (\<lambda>colorId errors.
        andThen (checkValueType_word errors ''arc'' ''effect'' values 8) (\<lambda>rawEffect errors.
        andThen (parseValue_effect errors ''arc'' ''effect'' rawEffect) (\<lambda>effect errors.
        andThen (checkValueType_word errors ''arc'' ''is-line'' values 9) (\<lambda>rawIsLine errors.
        andThen (parseValue_bool errors ''arc'' ''is-line'' rawIsLine) (\<lambda>isLine errors.
        if start = None \<or> end' = None \<or>
           xStart = None \<or> xEnd = None \<or> arcKind = None \<or>
           yStart = None \<or> yEnd = None \<or> colorId = None \<or>
           effect = None \<or> isLine = None
        then Inr (None, errors)
        else
          (case subevents of
             Some subevents \<Rightarrow>
               (let (arctaps, errors) =
                      transformArcSubevents errors subevents (the subeventsLocation)
                in Inr (Some (Arc tagLocation (the start) (the end') (the xStart) (the xEnd)
                          (the arcKind) (the yStart) (the yEnd) (the colorId) (the effect)
                          (the isLine) (Some arctaps)), errors))
           | None \<Rightarrow>
               Inr (Some (Arc tagLocation (the start) (the end') (the xStart) (the xEnd)
                     (the arcKind) (the yStart) (the yEnd) (the colorId) (the effect)
                     (the isLine) None), errors)))))))))))))))))"

subsection \<open>The visitor\<close>

text \<open>
  \<open>this.visit(node, errors)\<close> calls the method that has the name of the node. The
  methods are \<open>visit_metadataEntry\<close> to \<open>visit_aff\<close> below.
\<close>

definition visit_metadataEntry :: "CstMetadataEntry \<Rightarrow> AFFMetadataEntry" where
  "visit_metadataEntry ctx =
     (let key = keyToken ctx; data = dataToken ctx
      in AFFMetadataEntry (WithLocation (image key) (locationFromToken key))
           (WithLocation (image data) (locationFromToken data)))"

text \<open>The loop of \<open>metadata\<close> over the entries, with the map it fills.\<close>

fun metadata_loop ::
  "(string \<times> AFFMetadataEntry WithLocation) list \<Rightarrow> AFFError list
   \<Rightarrow> (CstMetadataEntry \<times> AFFMetadataEntry) list
   \<Rightarrow> (string \<times> AFFMetadataEntry WithLocation) list \<times> AFFError list" where
  "metadata_loop metadata errors [] = (metadata, errors)"
| "metadata_loop metadata errors ((node, entry) # rest) =
     (let key = data (entryKey entry) in
      case map_of metadata key of
        Some previous \<Rightarrow>
          (let loc = location (entryKey (data previous)) in
           metadata_loop metadata
             (errors @
              [\<lparr>message = ''\"'' @ key @ ''\" is defined twice in the metadata section.'',
                errorLocation = location (entryKey entry),
                severity = Error,
                relatedInfo = Some [AFFErrorRelatedInfo ''Previous defination'' loc]\<rparr>])
             rest)
      | None \<Rightarrow>
          metadata_loop (metadata @ [(key, WithLocation entry (entryLocation node))])
            errors rest)"

definition visit_metadata :: "CstMetadata \<Rightarrow> AFFError list \<Rightarrow> AFFMetadata \<times> AFFError list" where
  "visit_metadata ctx errors =
     (let entries = map (\<lambda>node. (node, visit_metadataEntry node)) (metadataEntries ctx);
          (metadata, errors) = metadata_loop [] errors entries
      in (AFFMetadata metadata (locationFromToken (metaEnd ctx)), errors))"

definition tokenValue :: "IToken \<Rightarrow> thrown + AFFValue" where
  "tokenValue token =
     (if tokenType token = tt_word then Inr (VWord (AFFWord (image token)))
      else if tokenType token = tt_int then Inr (VInt (AFFInt (parseInt (image token))))
      else if tokenType token = tt_float then
        Inr (VFloat (AFFFloat (ParseFloat (image token))
               (int (length (image token)) - indexOf (image token) CHR ''.'' - 1)))
      else Inl (UnknownTokenType (tokenType token)))"

fun values_map :: "IToken list \<Rightarrow> thrown + AFFValue WithLocation list" where
  "values_map [] = Inr []"
| "values_map (token # rest) =
     (case tokenValue token of
        Inl x \<Rightarrow> Inl x
      | Inr v \<Rightarrow>
          (case values_map rest of
             Inl x \<Rightarrow> Inl x
           | Inr vs \<Rightarrow> Inr (WithLocation v (locationFromToken token) # vs)))"

definition visit_values :: "CstValues \<Rightarrow> thrown + AFFValue WithLocation list" where
  "visit_values ctx = values_map (valueTokens ctx)"

text \<open>The filter of \<open>subevents\<close> and of \<open>items\<close>, which drops the \<open>null\<close> results.\<close>

fun notNull :: "'a option list \<Rightarrow> 'a list" where
  "notNull [] = []"
| "notNull (None # rest) = notNull rest"
| "notNull (Some x # rest) = x # notNull rest"

text \<open>
  \<open>event\<close> visits the values, then the subevents, which push their errors, and then
  calls the transformer of its tag. \<open>subevents_map\<close> is the \<open>map\<close> of \<open>subevents\<close>
  over the events of the node, from the left.
\<close>

fun visit_event :: "CstEvent \<Rightarrow> AFFError list \<Rightarrow> thrown + (AFFEvent option \<times> AFFError list)"
and visit_subevents ::
  "CstSubevents \<Rightarrow> AFFError list \<Rightarrow> thrown + (AFFEvent WithLocation list \<times> AFFError list)"
and subevents_map ::
  "CstEvent list \<Rightarrow> AFFError list
   \<Rightarrow> thrown + (AFFEvent WithLocation option list \<times> AFFError list)" where
  "visit_event (CstEvent nodeLocation word valuesNode subeventsNode) errors =
     (case visit_values valuesNode of
        Inl x \<Rightarrow> Inl x
      | Inr values \<Rightarrow>
          andThen
            (case subeventsNode of
               Some node \<Rightarrow>
                 andThen (visit_subevents node errors)
                   (\<lambda>subevents errors. Inr (Some subevents, errors))
             | None \<Rightarrow> Inr (None, errors))
            (\<lambda>subevents errors.
               let valuesLocation = valuesNodeLocation valuesNode;
                   subeventsLocation = map_option subeventsNodeLocation subeventsNode
               in case word of
                    Some tag \<Rightarrow>
                      (let tagLocation = locationFromToken tag in
                       if image tag = ''timing'' then
                         timing errors values valuesLocation subevents subeventsLocation tagLocation
                       else if image tag = ''hold'' then
                         hold errors values valuesLocation subevents subeventsLocation tagLocation
                       else if image tag = ''arc'' then
                         arc errors values valuesLocation subevents subeventsLocation tagLocation
                       else if image tag = ''arctap'' then
                         arctap errors values valuesLocation subevents subeventsLocation tagLocation
                       else
                         Inr (None, errors @
                           [\<lparr>message = ''Unknown event type \"'' @ image tag @ ''\".'',
                             errorLocation = locationFromToken tag,
                             severity = Error,
                             relatedInfo = None\<rparr>]))
                  | None \<Rightarrow> tap errors values valuesLocation subevents subeventsLocation))"
| "visit_subevents (CstSubevents nodeLocation events) errors =
     andThen (subevents_map events errors) (\<lambda>results errors. Inr (notNull results, errors))"
| "subevents_map [] errors = Inr ([], errors)"
| "subevents_map (node # rest) errors =
     andThen (visit_event node errors) (\<lambda>event errors.
     andThen (subevents_map rest errors) (\<lambda>results errors.
     Inr (map_option (\<lambda>e. WithLocation e (eventLocation node)) event # results, errors)))"

text \<open>
  \<open>item\<close> returns the event of its node with the location of that node, unless the kind
  of the event is \<open>arctap\<close>.
\<close>

definition visit_item ::
  "CstItem \<Rightarrow> AFFError list \<Rightarrow> thrown + (AFFEvent WithLocation option \<times> AFFError list)" where
  "visit_item ctx errors =
     (let node = itemEvent ctx in
      andThen (visit_event node errors) (\<lambda>event errors.
      case event of
        Some event \<Rightarrow>
          (case event of
             Arctap tagLocation time \<Rightarrow>
               Inr (None, errors @
                 [\<lparr>message = ''Event with type \"'' @ kindOfEvent event
                     @ ''\" should not be used as an item.'',
                   errorLocation = tagLocation,
                   severity = Error,
                   relatedInfo = None\<rparr>])
           | _ \<Rightarrow> Inr (Some (WithLocation event (eventLocation node)), errors))
      | None \<Rightarrow> Inr (None, errors)))"

fun items_map ::
  "CstItem list \<Rightarrow> AFFError list
   \<Rightarrow> thrown + (AFFEvent WithLocation option list \<times> AFFError list)" where
  "items_map [] errors = Inr ([], errors)"
| "items_map (node # rest) errors =
     andThen (visit_item node errors) (\<lambda>item errors.
     andThen (items_map rest errors) (\<lambda>results errors.
     Inr (item # results, errors)))"

definition visit_items ::
  "CstItems \<Rightarrow> AFFError list \<Rightarrow> thrown + (AFFEvent WithLocation list \<times> AFFError list)" where
  "visit_items ctx errors =
     andThen (items_map (itemsItems ctx) errors) (\<lambda>results errors.
     Inr (notNull results, errors))"

definition visit_aff :: "CstAff \<Rightarrow> AFFError list \<Rightarrow> thrown + (AFFFile \<times> AFFError list)" where
  "visit_aff ctx errors =
     (let metadataNode = affMetadata ctx;
          (metadata, errors) = visit_metadata metadataNode errors
      in andThen (visit_items (affItems ctx) errors) (\<lambda>items errors.
         Inr (AFFFile (WithLocation metadata (metadataLocation metadataNode)) items, errors)))"

definition affToAST :: "CstAff \<Rightarrow> thrown + (AFFFile \<times> AFFError list)" where
  "affToAST aff = visit_aff aff []"

section \<open>The checkers\<close>

definition checkFloat :: "AFFFloat WithLocation \<Rightarrow> AFFError list \<Rightarrow> AFFError list" where
  "checkFloat float errors =
     (if digit (data float) \<noteq> 2 then
        errors @
        [\<lparr>message = ''Float values should have exact 2 digits in its fractional part.'',
          errorLocation = location float,
          severity = Warning,
          relatedInfo = None\<rparr>]
      else errors)"

fun floatDigitChecker_loop :: "AFFEvent WithLocation list \<Rightarrow> AFFError list \<Rightarrow> AFFError list" where
  "floatDigitChecker_loop [] errors = errors"
| "floatDigitChecker_loop (item # rest) errors =
     (case data item of
        Timing tagLocation time bpm segment \<Rightarrow>
          floatDigitChecker_loop rest (checkFloat segment (checkFloat bpm errors))
      | Arc tagLocation start end' xStart xEnd arcKind yStart yEnd colorId effect isLine arctaps \<Rightarrow>
          floatDigitChecker_loop rest
            (checkFloat yEnd (checkFloat yStart (checkFloat xEnd (checkFloat xStart errors))))
      | _ \<Rightarrow> floatDigitChecker_loop rest errors)"

definition floatDigitChecker :: "AFFFile \<Rightarrow> AFFError list \<Rightarrow> AFFError list" where
  "floatDigitChecker file errors = floatDigitChecker_loop (fileItems file) errors"

section \<open>Notions used in the statements\<close>

text \<open>
  A result keeps the diagnostics \<open>errors\<close> when the list it returns starts with them.
  A thrown exception returns no list.
\<close>

definition keeps :: "AFFError list \<Rightarrow> thrown + ('a \<times> AFFError list) \<Rightarrow> bool" where
  "keeps errors r = (case r of Inl x \<Rightarrow> True | Inr (a, errors') \<Rightarrow> prefix errors errors')"


text \<open>The domain values of an event are in the sets that the types declare.\<close>

fun inRange :: "AFFEvent \<Rightarrow> bool" where
  "inRange (Tap time trackId) \<longleftrightarrow> trackIdValue (data trackId) \<in> set affTrackIds"
| "inRange (Hold tagLocation start end' trackId) \<longleftrightarrow>
     trackIdValue (data trackId) \<in> set affTrackIds"
| "inRange (Arc tagLocation start end' xStart xEnd arcKind yStart yEnd colorId effect isLine arctaps)
     \<longleftrightarrow> arcKindValue (data arcKind) \<in> set affArcKinds
       \<and> colorIdValue (data colorId) \<in> set affColorIds
       \<and> effectValue (data effect) \<in> set affEffects"
| "inRange (Timing tagLocation time bpm segment) \<longleftrightarrow> True"
| "inRange (Arctap tagLocation time) \<longleftrightarrow> True"

subsection \<open>The lowering of the metadata, as specified\<close>

text \<open>
  The statement of the lowering of the metadata, in the words of the specification. The
  first entry of a key is the leftmost entry of the section that has the key.
\<close>

definition firstEntry :: "CstMetadataEntry list \<Rightarrow> string \<Rightarrow> CstMetadataEntry option" where
  "firstEntry entries k = find (\<lambda>n. image (keyToken n) = k) entries"

text \<open>
  An entry is a duplicate when an entry to its left has its key. The errors of the
  specification: one for each duplicate, from left to right, at the key of the duplicate,
  with the location of the key of the first entry of that key as its related information.
\<close>

definition spec_duplicateKeyErrors :: "CstMetadataEntry list \<Rightarrow> AFFError list" where
  "spec_duplicateKeyErrors entries =
     map (\<lambda>i.
        \<lparr>message = ''\"'' @ image (keyToken (entries ! i))
           @ ''\" is defined twice in the metadata section.'',
         errorLocation = locationFromToken (keyToken (entries ! i)),
         severity = Error,
         relatedInfo =
           map_option
             (\<lambda>f. [AFFErrorRelatedInfo ''Previous defination'' (locationFromToken (keyToken f))])
             (firstEntry entries (image (keyToken (entries ! i))))\<rparr>)
       (filter (\<lambda>i. image (keyToken (entries ! i))
                  \<in> set (map (\<lambda>n. image (keyToken n)) (take i entries)))
          [0..<length entries])"

subsection \<open>Example inputs\<close>

text \<open>A location and a token on the first line of a chart, from their offsets.\<close>

definition exampleLocation :: "nat \<Rightarrow> nat \<Rightarrow> CstNodeLocation" where
  "exampleLocation m n =
     \<lparr>startOffset = m, startLine = 1, startColumn = m + 1,
      endOffset = n, endLine = 1, endColumn = n + 1\<rparr>"

definition exampleToken :: "nat \<Rightarrow> string \<Rightarrow> TokenType \<Rightarrow> IToken" where
  "exampleToken m s t =
     \<lparr>startOffset = m, startLine = 1, startColumn = m + 1,
      endOffset = m + length s - 1, endLine = 1, endColumn = m + length s,
      image = s, tokenType = t\<rparr>"



definition exampleArc :: "AFFArctapEvent WithLocation list WithLocation option \<Rightarrow> AFFEvent" where
  "exampleArc arctaps =
     Arc (exampleLocation 0 2)
       (WithLocation (AFFInt (Integer 0)) (exampleLocation 4 4))
       (WithLocation (AFFInt (Integer 1000)) (exampleLocation 6 9))
       (WithLocation (AFFFloat (ParseFloat ''0.00'') 2) (exampleLocation 11 14))
       (WithLocation (AFFFloat (ParseFloat ''1.00'') 2) (exampleLocation 16 19))
       (WithLocation (AFFArcKind ''s'') (exampleLocation 21 21))
       (WithLocation (AFFFloat (ParseFloat ''1.00'') 2) (exampleLocation 23 26))
       (WithLocation (AFFFloat (ParseFloat ''1.00'') 2) (exampleLocation 28 31))
       (WithLocation (AFFColorId 0) (exampleLocation 33 33))
       (WithLocation (AFFEffect ''none'') (exampleLocation 35 38))
       (WithLocation (AFFBool False) (exampleLocation 40 44))
       arctaps"



definition exampleEntry :: "nat \<Rightarrow> string \<Rightarrow> string \<Rightarrow> CstMetadataEntry" where
  "exampleEntry m k v =
     CstMetadataEntry (exampleLocation m (m + length k + length v))
       (exampleToken m k (tt_other ''key''))
       (exampleToken (m + length k + 1) v (tt_other ''data''))"

definition exampleMetadata :: CstMetadata where
  "exampleMetadata =
     CstMetadata (exampleLocation 0 12)
       [exampleEntry 0 ''a'' ''1'', exampleEntry 4 ''a'' ''2'', exampleEntry 8 ''a'' ''3'']
       (exampleToken 12 ''-'' (tt_other ''metaEnd''))"

definition exampleTimingTokens :: "IToken list" where
  "exampleTimingTokens =
     [exampleToken 7 ''0'' tt_int, exampleToken 9 ''120.5'' tt_float,
      exampleToken 15 ''4.00'' tt_float]"

definition exampleTiming :: AFFEvent where
  "exampleTiming =
     Timing (exampleLocation 0 5)
       (WithLocation (AFFInt (Integer 0)) (exampleLocation 7 7))
       (WithLocation (AFFFloat (ParseFloat ''120.5'') 1) (exampleLocation 9 13))
       (WithLocation (AFFFloat (ParseFloat ''4.00'') 2) (exampleLocation 15 18))"

definition exampleFile :: AFFFile where
  "exampleFile =
     AFFFile (WithLocation (AFFMetadata [] (exampleLocation 0 0)) (exampleLocation 0 0))
       [WithLocation exampleTiming (exampleLocation 0 20),
        WithLocation (exampleArc None) (exampleLocation 22 68)]"

definition exampleArctapNode :: CstEvent where
  "exampleArctapNode =
     CstEvent (exampleLocation 47 57) (Some (exampleToken 47 ''arctap'' tt_word))
       (CstValues (exampleLocation 53 57) [exampleToken 54 ''200'' tt_int]) None"

definition exampleArcTokens :: "IToken list" where
  "exampleArcTokens =
     [exampleToken 4 ''0'' tt_int, exampleToken 6 ''1000'' tt_int,
      exampleToken 11 ''0.00'' tt_float, exampleToken 16 ''1.00'' tt_float,
      exampleToken 21 ''s'' tt_word, exampleToken 23 ''1.00'' tt_float,
      exampleToken 28 ''1.00'' tt_float, exampleToken 33 ''0'' tt_int,
      exampleToken 35 ''none'' tt_word, exampleToken 40 ''false'' tt_word]"

definition exampleArcNode :: "CstSubevents option \<Rightarrow> CstEvent" where
  "exampleArcNode subevents =
     CstEvent (exampleLocation 0 59) (Some (exampleToken 0 ''arc'' tt_word))
       (CstValues (exampleLocation 3 45) exampleArcTokens) subevents"

definition exampleAff :: CstAff where
  "exampleAff =
     CstAff exampleMetadata
       (CstItems
          [CstItem exampleArctapNode,
           CstItem (exampleArcNode (Some (CstSubevents (exampleLocation 46 58) [exampleArctapNode])))])"

definition exampleAffFile :: AFFFile where
  "exampleAffFile =
     AFFFile
       (WithLocation
          (AFFMetadata
             [(''a'', WithLocation
                (AFFMetadataEntry (WithLocation ''a'' (exampleLocation 0 0))
                   (WithLocation ''1'' (exampleLocation 2 2)))
                (exampleLocation 0 2))]
             (exampleLocation 12 12))
          (exampleLocation 0 12))
       [WithLocation
          (exampleArc (Some (WithLocation
             [WithLocation
                (AFFArctapEvent (exampleLocation 47 52)
                   (WithLocation (AFFInt (Integer 200)) (exampleLocation 54 56)))
                (exampleLocation 47 57)]
             (exampleLocation 46 58))))
          (exampleLocation 0 59)]"

section \<open>Basic facts\<close>

subsection \<open>Sequencing and kept diagnostics\<close>

lemma andThen_Inr [simp]: "andThen (Inr (a, e)) f = f a e"
  by (simp add: andThen_def)

lemma andThen_Inl [simp]: "andThen (Inl x) f = Inl x"
  by (simp add: andThen_def)

lemma andThen_Inr_iff:
  "andThen r f = Inr y \<longleftrightarrow> (\<exists>a e. r = Inr (a, e) \<and> f a e = Inr y)"
  by (auto simp: andThen_def split: sum.splits)


lemma keeps_Inr [simp]: "keeps e (Inr (a, e')) \<longleftrightarrow> prefix e e'"
  by (simp add: keeps_def)



subsection \<open>Type checks and value parsers\<close>










lemma checkValueType_int_Some:
  "checkValueType_int e k f vs i = Inr (Some x, e') \<longleftrightarrow>
     e' = e \<and> i < length vs \<and> (\<exists>v. data (vs ! i) = VInt v \<and> x = WithLocation v (location (vs ! i)))"
  by (auto simp: checkValueType_int_def Let_def split: AFFValue.splits)

lemma checkValueType_float_Some:
  "checkValueType_float e k f vs i = Inr (Some x, e') \<longleftrightarrow>
     e' = e \<and> i < length vs \<and> (\<exists>v. data (vs ! i) = VFloat v \<and> x = WithLocation v (location (vs ! i)))"
  by (auto simp: checkValueType_float_def Let_def split: AFFValue.splits)

lemma checkValueType_word_Some:
  "checkValueType_word e k f vs i = Inr (Some x, e') \<longleftrightarrow>
     e' = e \<and> i < length vs \<and> (\<exists>v. data (vs ! i) = VWord v \<and> x = WithLocation v (location (vs ! i)))"
  by (auto simp: checkValueType_word_def Let_def split: AFFValue.splits)

lemma parseValue_trackId_Some:
  "parseValue_trackId e k f r = Inr (Some x, e') \<longleftrightarrow>
     e' = e \<and> (\<exists>n loc. r = Some (WithLocation (AFFInt (Integer n)) loc) \<and> 1 \<le> n \<and> n \<le> 4
        \<and> x = WithLocation (AFFTrackId n) loc)"
proof (cases r)
  case None
  then show ?thesis by (simp add: parseValue_trackId_def)
next
  case (Some a)
  obtain v loc where a: "a = WithLocation (AFFInt v) loc"
    by (metis AFFInt.exhaust WithLocation.exhaust)
  show ?thesis
    using Some a by (cases v) (auto simp: parseValue_trackId_def)
qed

lemma parseValue_colorId_Some:
  "parseValue_colorId e k f r = Inr (Some x, e') \<longleftrightarrow>
     e' = e \<and> (\<exists>n loc. r = Some (WithLocation (AFFInt (Integer n)) loc) \<and> 0 \<le> n \<and> n \<le> 2
        \<and> x = WithLocation (AFFColorId n) loc)"
proof (cases r)
  case None
  then show ?thesis by (simp add: parseValue_colorId_def)
next
  case (Some a)
  obtain v loc where a: "a = WithLocation (AFFInt v) loc"
    by (metis AFFInt.exhaust WithLocation.exhaust)
  show ?thesis
    using Some a by (cases v) (auto simp: parseValue_colorId_def)
qed

lemma parseValue_arcKind_Some:
  "parseValue_arcKind e k f r = Inr (Some x, e') \<longleftrightarrow>
     e' = e \<and> (\<exists>w loc. r = Some (WithLocation (AFFWord w) loc) \<and> w \<in> set affArcKinds
        \<and> x = WithLocation (AFFArcKind w) loc)"
proof (cases r)
  case None
  then show ?thesis by (simp add: parseValue_arcKind_def)
next
  case (Some a)
  obtain w loc where a: "a = WithLocation (AFFWord w) loc"
    by (metis AFFWord.exhaust WithLocation.exhaust)
  show ?thesis
    using Some a by (auto simp: parseValue_arcKind_def Let_def)
qed

lemma parseValue_effect_Some:
  "parseValue_effect e k f r = Inr (Some x, e') \<longleftrightarrow>
     e' = e \<and> (\<exists>w loc. r = Some (WithLocation (AFFWord w) loc) \<and> w \<in> set affEffects
        \<and> x = WithLocation (AFFEffect w) loc)"
proof (cases r)
  case None
  then show ?thesis by (simp add: parseValue_effect_def)
next
  case (Some a)
  obtain w loc where a: "a = WithLocation (AFFWord w) loc"
    by (metis AFFWord.exhaust WithLocation.exhaust)
  show ?thesis
    using Some a by (auto simp: parseValue_effect_def Let_def)
qed

lemma parseValue_bool_Some:
  "parseValue_bool e k f r = Inr (Some x, e') \<longleftrightarrow>
     e' = e \<and> (\<exists>w loc. r = Some (WithLocation (AFFWord w) loc) \<and> w \<in> set affBools
        \<and> x = WithLocation (AFFBool (w = ''true'')) loc)"
proof (cases r)
  case None
  then show ?thesis by (simp add: parseValue_bool_def)
next
  case (Some a)
  obtain w loc where a: "a = WithLocation (AFFWord w) loc"
    by (metis AFFWord.exhaust WithLocation.exhaust)
  show ?thesis
    using Some a by (auto simp: parseValue_bool_def Let_def)
qed

lemmas field_Some = checkValueType_int_Some checkValueType_float_Some checkValueType_word_Some
  parseValue_trackId_Some parseValue_colorId_Some parseValue_arcKind_Some
  parseValue_effect_Some parseValue_bool_Some










lemma checkValueType_int_returns:
  "i < length vs \<Longrightarrow>
   checkValueType_int e k f vs i =
     Inr (case data (vs ! i) of VInt v \<Rightarrow> Some (WithLocation v (location (vs ! i))) | _ \<Rightarrow> None,
          case data (vs ! i) of VInt v \<Rightarrow> e | _ \<Rightarrow> e @ [valueTypeMismatch k f ''int'' (vs ! i)])"
  by (simp add: checkValueType_int_def Let_def split: AFFValue.splits)

lemma checkValueType_float_returns:
  "i < length vs \<Longrightarrow>
   checkValueType_float e k f vs i =
     Inr (case data (vs ! i) of VFloat v \<Rightarrow> Some (WithLocation v (location (vs ! i))) | _ \<Rightarrow> None,
          case data (vs ! i) of VFloat v \<Rightarrow> e | _ \<Rightarrow> e @ [valueTypeMismatch k f ''float'' (vs ! i)])"
  by (simp add: checkValueType_float_def Let_def split: AFFValue.splits)

lemma checkValueType_word_returns:
  "i < length vs \<Longrightarrow>
   checkValueType_word e k f vs i =
     Inr (case data (vs ! i) of VWord v \<Rightarrow> Some (WithLocation v (location (vs ! i))) | _ \<Rightarrow> None,
          case data (vs ! i) of VWord v \<Rightarrow> e | _ \<Rightarrow> e @ [valueTypeMismatch k f ''word'' (vs ! i)])"
  by (simp add: checkValueType_word_def Let_def split: AFFValue.splits)


lemma checkValueType_int_Inl [simp]: "i < length vs \<Longrightarrow> checkValueType_int e k f vs i \<noteq> Inl x"
  by (simp add: checkValueType_int_returns)

lemma checkValueType_float_Inl [simp]: "i < length vs \<Longrightarrow> checkValueType_float e k f vs i \<noteq> Inl x"
  by (simp add: checkValueType_float_returns)

lemma checkValueType_word_Inl [simp]: "i < length vs \<Longrightarrow> checkValueType_word e k f vs i \<noteq> Inl x"
  by (simp add: checkValueType_word_returns)

lemma parseValue_arcKind_returns: "\<exists>a e'. parseValue_arcKind e k f r = Inr (a, e')"
  by (simp add: parseValue_arcKind_def Let_def split: option.splits WithLocation.splits)

lemma parseValue_effect_returns: "\<exists>a e'. parseValue_effect e k f r = Inr (a, e')"
  by (simp add: parseValue_effect_def Let_def split: option.splits WithLocation.splits)

lemma parseValue_bool_returns: "\<exists>a e'. parseValue_bool e k f r = Inr (a, e')"
  by (simp add: parseValue_bool_def Let_def split: option.splits WithLocation.splits)

lemma parseValue_arcKind_Inl [simp]: "parseValue_arcKind e k f r \<noteq> Inl x"
  using parseValue_arcKind_returns[of e k f r] by auto

lemma parseValue_effect_Inl [simp]: "parseValue_effect e k f r \<noteq> Inl x"
  using parseValue_effect_returns[of e k f r] by auto

lemma parseValue_bool_Inl [simp]: "parseValue_bool e k f r \<noteq> Inl x"
  using parseValue_bool_returns[of e k f r] by auto




lemma trackId_range: "1 \<le> n \<Longrightarrow> n \<le> 4 \<Longrightarrow> n \<in> set affTrackIds"
  unfolding affTrackIds_def by (simp, arith)

lemma colorId_range: "0 \<le> n \<Longrightarrow> n \<le> 2 \<Longrightarrow> n \<in> set affColorIds"
  unfolding affColorIds_def by (simp, arith)

subsection \<open>Event transformers\<close>


lemma rejectSubevent_None [simp]: "rejectSubevent e k None sl = e"
  by (simp add: rejectSubevent_def)







lemma tap_Some_D:
  assumes "tap e vs vl s sl = Inr (Some ev, e')"
  shows "length vs = 2 \<and> e' = rejectSubevent e ''tap'' s sl \<and>
     (\<exists>t n. data (vs ! 0) = VInt t \<and> data (vs ! 1) = VInt (AFFInt (Integer n)) \<and> 1 \<le> n \<and> n \<le> 4
        \<and> ev = Tap (WithLocation t (location (vs ! 0))) (WithLocation (AFFTrackId n) (location (vs ! 1))))"
  using assms
  by (auto simp: tap_def checkValuesCount_def Let_def andThen_Inr_iff field_Some split: if_splits)

lemma hold_Some_D:
  assumes "hold e vs vl s sl tg = Inr (Some ev, e')"
  shows "length vs = 3 \<and> e' = rejectSubevent e ''hold'' s sl \<and>
     (\<exists>st en n. data (vs ! 0) = VInt st \<and> data (vs ! 1) = VInt en \<and>
        data (vs ! 2) = VInt (AFFInt (Integer n)) \<and> 1 \<le> n \<and> n \<le> 4
        \<and> ev = Hold tg (WithLocation st (location (vs ! 0))) (WithLocation en (location (vs ! 1)))
             (WithLocation (AFFTrackId n) (location (vs ! 2))))"
  using assms
  by (auto simp: hold_def checkValuesCount_def Let_def andThen_Inr_iff field_Some split: if_splits)

lemma arctap_Some_D:
  assumes "arctap e vs vl s sl tg = Inr (Some ev, e')"
  shows "length vs = 1 \<and> e' = rejectSubevent e ''arctap'' s sl \<and>
     (\<exists>t. data (vs ! 0) = VInt t \<and> ev = Arctap tg (WithLocation t (location (vs ! 0))))"
  using assms
  by (auto simp: arctap_def checkValuesCount_def Let_def andThen_Inr_iff field_Some split: if_splits)

lemma timing_Some_D:
  assumes "timing e vs vl s sl tg = Inr (Some ev, e')"
  shows "length vs = 3 \<and> e' = rejectSubevent e ''timing'' s sl \<and>
     (\<exists>t b sg. data (vs ! 0) = VInt t \<and> data (vs ! 1) = VFloat b \<and> data (vs ! 2) = VFloat sg
        \<and> ev = Timing tg (WithLocation t (location (vs ! 0))) (WithLocation b (location (vs ! 1)))
             (WithLocation sg (location (vs ! 2))))"
  using assms
  by (auto simp: timing_def checkValuesCount_def Let_def andThen_Inr_iff field_Some split: if_splits)

lemma arc_Some_D:
  assumes "arc e vs vl s sl tg = Inr (Some ev, e')"
  shows "length vs = 10 \<and>
     (\<exists>st en xs xe ak ys ye c ef il.
        data (vs ! 0) = VInt st \<and> data (vs ! 1) = VInt en \<and>
        data (vs ! 2) = VFloat xs \<and> data (vs ! 3) = VFloat xe \<and>
        data (vs ! 4) = VWord (AFFWord ak) \<and> ak \<in> set affArcKinds \<and>
        data (vs ! 5) = VFloat ys \<and> data (vs ! 6) = VFloat ye \<and>
        data (vs ! 7) = VInt (AFFInt (Integer c)) \<and> 0 \<le> c \<and> c \<le> 2 \<and>
        data (vs ! 8) = VWord (AFFWord ef) \<and> ef \<in> set affEffects \<and>
        data (vs ! 9) = VWord (AFFWord il) \<and> il \<in> set affBools \<and>
        (\<exists>ats. ev = Arc tg (WithLocation st (location (vs ! 0))) (WithLocation en (location (vs ! 1)))
           (WithLocation xs (location (vs ! 2))) (WithLocation xe (location (vs ! 3)))
           (WithLocation (AFFArcKind ak) (location (vs ! 4)))
           (WithLocation ys (location (vs ! 5))) (WithLocation ye (location (vs ! 6)))
           (WithLocation (AFFColorId c) (location (vs ! 7)))
           (WithLocation (AFFEffect ef) (location (vs ! 8)))
           (WithLocation (AFFBool (il = ''true'')) (location (vs ! 9))) ats
         \<and> (case s of None \<Rightarrow> ats = None \<and> e' = e
             | Some subs \<Rightarrow> \<exists>a. ats = Some a \<and> transformArcSubevents e subs (the sl) = (a, e'))))"
  using assms
  by (auto simp: arc_def checkValuesCount_def Let_def andThen_Inr_iff field_Some split: if_splits option.splits prod.splits)












lemma tap_inRange: "tap e vs vl s sl = Inr (Some ev, e') \<Longrightarrow> inRange ev"
  by (auto dest!: tap_Some_D intro: trackId_range)

lemma hold_inRange: "hold e vs vl s sl tg = Inr (Some ev, e') \<Longrightarrow> inRange ev"
  by (auto dest!: hold_Some_D intro: trackId_range)

lemma arctap_inRange: "arctap e vs vl s sl tg = Inr (Some ev, e') \<Longrightarrow> inRange ev"
  by (auto dest!: arctap_Some_D)

lemma timing_inRange: "timing e vs vl s sl tg = Inr (Some ev, e') \<Longrightarrow> inRange ev"
  by (auto dest!: timing_Some_D)

lemma arc_inRange: "arc e vs vl s sl tg = Inr (Some ev, e') \<Longrightarrow> inRange ev"
  by (auto dest!: arc_Some_D intro: colorId_range)








section \<open>Value counts and fields of events\<close>



section \<open>Subevents of events\<close>





section \<open>Duplicate keys of the metadata\<close>

lemma metadata_loop_append:
  "metadata_loop m e (xs @ ys) =
     (case metadata_loop m e xs of (m', e') \<Rightarrow> metadata_loop m' e' ys)"
  by (induction m e xs rule: metadata_loop.induct) (simp_all add: Let_def split: option.splits)

lemma find_snoc:
  "find P (xs @ [x]) =
     (case find P xs of Some y \<Rightarrow> Some y | None \<Rightarrow> if P x then Some x else None)"
  by (induction xs) auto

lemma firstEntry_snoc:
  "firstEntry (ns @ [x]) k =
     (case firstEntry ns k of Some y \<Rightarrow> Some y
      | None \<Rightarrow> if image (keyToken x) = k then Some x else None)"
  by (simp add: firstEntry_def find_snoc)

lemma firstEntry_None: "firstEntry ns k = None \<longleftrightarrow> k \<notin> set (map (\<lambda>n. image (keyToken n)) ns)"
  by (auto simp: firstEntry_def find_None_iff)

lemma firstEntry_Some_D:
  "firstEntry ns k = Some f \<Longrightarrow> f \<in> set ns \<and> image (keyToken f) = k"
  by (auto simp: firstEntry_def find_Some_iff)

lemma spec_duplicateKeyErrors_snoc:
  "spec_duplicateKeyErrors (ns @ [x]) =
     spec_duplicateKeyErrors ns @
     (if image (keyToken x) \<in> set (map (\<lambda>n. image (keyToken n)) ns) then
        [\<lparr>message = ''\"'' @ image (keyToken x) @ ''\" is defined twice in the metadata section.'',
          errorLocation = locationFromToken (keyToken x),
          severity = Error,
          relatedInfo =
            map_option
              (\<lambda>f. [AFFErrorRelatedInfo ''Previous defination'' (locationFromToken (keyToken f))])
              (firstEntry ns (image (keyToken x)))\<rparr>]
      else [])"
proof -
  let ?K = "\<lambda>n. image (keyToken n)"
  let ?n = "length ns"
  let ?P = "\<lambda>xs i. ?K (xs ! i) \<in> set (map ?K (take i xs))"
  let ?g = "\<lambda>xs i.
        \<lparr>message = ''\"'' @ ?K (xs ! i) @ ''\" is defined twice in the metadata section.'',
         errorLocation = locationFromToken (keyToken (xs ! i)),
         severity = Error,
         relatedInfo =
           map_option
             (\<lambda>f. [AFFErrorRelatedInfo ''Previous defination'' (locationFromToken (keyToken f))])
             (firstEntry xs (?K (xs ! i)))\<rparr>"
  have P: "filter (?P (ns @ [x])) [0..<?n] = filter (?P ns) [0..<?n]"
    by (rule filter_cong) (auto simp: nth_append)
  have g: "map (?g (ns @ [x])) (filter (?P ns) [0..<?n]) = map (?g ns) (filter (?P ns) [0..<?n])"
  proof (rule map_cong[OF refl])
    fix i assume "i \<in> set (filter (?P ns) [0..<?n])"
    then have i: "i < ?n" and "?P ns i" by auto
    then have "?K (ns ! i) \<in> set (map ?K ns)"
      using set_take_subset[of i ns] by auto
    then have "firstEntry ns (?K (ns ! i)) \<noteq> None"
      by (simp add: firstEntry_None)
    then have "firstEntry (ns @ [x]) (?K (ns ! i)) = firstEntry ns (?K (ns ! i))"
      by (auto simp: firstEntry_snoc)
    with i show "?g (ns @ [x]) i = ?g ns i"
      by (simp add: nth_append)
  qed
  have glast: "?K x \<in> set (map ?K ns) \<Longrightarrow>
      firstEntry (ns @ [x]) (?K x) = firstEntry ns (?K x)"
  proof -
    assume "?K x \<in> set (map ?K ns)"
    then have "firstEntry ns (?K x) \<noteq> None"
      by (simp only: firstEntry_None not_not)
    then show ?thesis
      by (auto simp: firstEntry_snoc)
  qed
  have A: "[0..<length (ns @ [x])] = [0..<?n] @ [?n]"
    by simp
  have B: "spec_duplicateKeyErrors (ns @ [x]) =
      map (?g (ns @ [x])) (filter (?P (ns @ [x])) [0..<?n]) @
      map (?g (ns @ [x])) (filter (?P (ns @ [x])) [?n])"
    unfolding spec_duplicateKeyErrors_def A filter_append map_append by (rule refl)
  have C: "map (?g (ns @ [x])) (filter (?P (ns @ [x])) [0..<?n]) = spec_duplicateKeyErrors ns"
    unfolding spec_duplicateKeyErrors_def P g by (rule refl)
  have D: "map (?g (ns @ [x])) (filter (?P (ns @ [x])) [?n]) =
     (if ?K x \<in> set (map ?K ns) then
        [\<lparr>message = ''\"'' @ ?K x @ ''\" is defined twice in the metadata section.'',
          errorLocation = locationFromToken (keyToken x),
          severity = Error,
          relatedInfo =
            map_option
              (\<lambda>f. [AFFErrorRelatedInfo ''Previous defination'' (locationFromToken (keyToken f))])
              (firstEntry ns (?K x))\<rparr>]
      else [])"
    using glast by (cases "?K x \<in> set (map ?K ns)") (simp_all del: set_map)
  show ?thesis
    unfolding B C D by (rule refl)
qed

lemma metadata_loop_spec:
  "metadata_loop [] errors (map (\<lambda>node. (node, visit_metadataEntry node)) ns) = (m, e') \<Longrightarrow>
     map fst m = rev (remdups (rev (map (\<lambda>n. image (keyToken n)) ns)))
     \<and> (\<forall>k. map_of m k =
           map_option (\<lambda>n. WithLocation (visit_metadataEntry n) (entryLocation n))
             (firstEntry ns k))
     \<and> e' = errors @ spec_duplicateKeyErrors ns"
proof (induction ns arbitrary: m e' rule: rev_induct)
  case Nil
  then show ?case
    by (auto simp: spec_duplicateKeyErrors_def firstEntry_def)
next
  case (snoc x ns)
  let ?f = "\<lambda>node. (node, visit_metadataEntry node)"
  let ?k = "image (keyToken x)"
  obtain m0 e0 where run0: "metadata_loop [] errors (map ?f ns) = (m0, e0)"
    by fastforce
  from snoc.prems run0 have step: "metadata_loop m0 e0 [(x, visit_metadataEntry x)] = (m, e')"
    by (simp add: metadata_loop_append)
  from snoc.IH[OF run0] have
    keys0: "map fst m0 = rev (remdups (rev (map (\<lambda>n. image (keyToken n)) ns)))" and
    look0: "\<And>k. map_of m0 k =
           map_option (\<lambda>n. WithLocation (visit_metadataEntry n) (entryLocation n))
             (firstEntry ns k)" and
    errs0: "e0 = errors @ spec_duplicateKeyErrors ns"
    by auto
  have key: "data (entryKey (visit_metadataEntry x)) = ?k"
    by (simp add: visit_metadataEntry_def Let_def)
  have keyloc: "\<And>n. location (entryKey (visit_metadataEntry n)) = locationFromToken (keyToken n)"
    by (simp add: visit_metadataEntry_def Let_def)
  show ?case
  proof (cases "firstEntry ns ?k")
    case None
    then have absent: "?k \<notin> set (map (\<lambda>n. image (keyToken n)) ns)"
      by (simp add: firstEntry_None)
    from None look0[of ?k] have "map_of m0 ?k = None" by simp
    with step key have m: "m = m0 @ [(?k, WithLocation (visit_metadataEntry x) (entryLocation x))]"
      and e: "e' = e0" by (auto simp: Let_def)
    have 1: "map fst m = rev (remdups (rev (map (\<lambda>n. image (keyToken n)) (ns @ [x]))))"
      using absent keys0 m by simp
    have 2: "\<And>k. map_of m k =
           map_option (\<lambda>n. WithLocation (visit_metadataEntry n) (entryLocation n))
             (firstEntry (ns @ [x]) k)"
      using look0 m
      by (auto simp: firstEntry_snoc map_add_def split: option.splits)
    have 3: "e' = errors @ spec_duplicateKeyErrors (ns @ [x])"
      using absent e errs0 by (simp only: spec_duplicateKeyErrors_snoc if_False append_Nil2)
    from 1 2 3 show ?thesis by blast
  next
    case (Some f)
    then have present: "?k \<in> set (map (\<lambda>n. image (keyToken n)) ns)"
      using firstEntry_None[of ns ?k] by simp
    from Some look0[of ?k]
    have "map_of m0 ?k = Some (WithLocation (visit_metadataEntry f) (entryLocation f))" by simp
    with step key keyloc have m: "m = m0"
      and e: "e' = e0 @
        [\<lparr>message = ''\"'' @ ?k @ ''\" is defined twice in the metadata section.'',
          errorLocation = locationFromToken (keyToken x),
          severity = Error,
          relatedInfo = Some [AFFErrorRelatedInfo ''Previous defination''
            (locationFromToken (keyToken f))]\<rparr>]"
      by (auto simp: Let_def)
    have 1: "map fst m = rev (remdups (rev (map (\<lambda>n. image (keyToken n)) (ns @ [x]))))"
      using present keys0 m by simp
    have 2: "\<And>k. map_of m k =
           map_option (\<lambda>n. WithLocation (visit_metadataEntry n) (entryLocation n))
             (firstEntry (ns @ [x]) k)"
      using look0 m Some
      by (auto simp: firstEntry_snoc split: option.splits)
    have 3: "e' = errors @ spec_duplicateKeyErrors (ns @ [x])"
      using present e errs0 Some
      by (simp only: spec_duplicateKeyErrors_snoc if_True option.map append_assoc)
    from 1 2 3 show ?thesis by blast
  qed
qed

lemma visit_metadata_spec:
  assumes "visit_metadata ctx errors = (metadata, errors')"
  shows "errors' = errors @ spec_duplicateKeyErrors (metadataEntries ctx)"
    and "map fst (metadataData metadata) =
      rev (remdups (rev (map (\<lambda>n. image (keyToken n)) (metadataEntries ctx))))"
    and "map_of (metadataData metadata) k =
      map_option (\<lambda>n. WithLocation (visit_metadataEntry n) (entryLocation n))
        (firstEntry (metadataEntries ctx) k)"
    and "metaEndLocation metadata = locationFromToken (metaEnd ctx)"
proof -
  obtain m e where loop:
    "metadata_loop [] errors (map (\<lambda>node. (node, visit_metadataEntry node)) (metadataEntries ctx)) = (m, e)"
    by fastforce
  with assms have md: "metadata = AFFMetadata m (locationFromToken (metaEnd ctx))" and e: "errors' = e"
    by (auto simp: visit_metadata_def)
  note spec = metadata_loop_spec[OF loop]
  from spec e show "errors' = errors @ spec_duplicateKeyErrors (metadataEntries ctx)" by simp
  from spec md show "map fst (metadataData metadata) =
      rev (remdups (rev (map (\<lambda>n. image (keyToken n)) (metadataEntries ctx))))" by simp
  from spec md show "map_of (metadataData metadata) k =
      map_option (\<lambda>n. WithLocation (visit_metadataEntry n) (entryLocation n))
        (firstEntry (metadataEntries ctx) k)" by simp
  from md show "metaEndLocation metadata = locationFromToken (metaEnd ctx)" by simp
qed

lemma spec_duplicateKeyErrors_member:
  assumes "err \<in> set (spec_duplicateKeyErrors ns)"
  shows "\<exists>i j. j < i \<and> i < length ns
    \<and> image (keyToken (ns ! j)) = image (keyToken (ns ! i))
    \<and> (\<forall>j'<j. image (keyToken (ns ! j')) \<noteq> image (keyToken (ns ! i)))
    \<and> err =
        \<lparr>message = ''\"'' @ image (keyToken (ns ! i))
           @ ''\" is defined twice in the metadata section.'',
         errorLocation = locationFromToken (keyToken (ns ! i)),
         severity = Error,
         relatedInfo = Some [AFFErrorRelatedInfo ''Previous defination''
           (locationFromToken (keyToken (ns ! j)))]\<rparr>"
proof -
  let ?K = "\<lambda>n. image (keyToken n)"
  from assms obtain i where i: "i < length ns"
    and dup: "?K (ns ! i) \<in> set (map ?K (take i ns))"
    and err: "err =
        \<lparr>message = ''\"'' @ ?K (ns ! i) @ ''\" is defined twice in the metadata section.'',
         errorLocation = locationFromToken (keyToken (ns ! i)),
         severity = Error,
         relatedInfo =
           map_option
             (\<lambda>f. [AFFErrorRelatedInfo ''Previous defination'' (locationFromToken (keyToken f))])
             (firstEntry ns (?K (ns ! i)))\<rparr>"
    by (auto simp: spec_duplicateKeyErrors_def)
  from dup obtain n where "n \<in> set (take i ns)" and n: "?K n = ?K (ns ! i)"
    by auto
  then obtain j0 where j0: "j0 < i" "j0 < length ns" and "n = take i ns ! j0"
    by (auto simp: in_set_conv_nth)
  with n have same0: "?K (ns ! j0) = ?K (ns ! i)"
    by simp
  moreover have "ns ! j0 \<in> set ns"
    using j0(2) by simp
  ultimately have "\<exists>x. x \<in> set ns \<and> ?K x = ?K (ns ! i)"
    by blast
  then have "firstEntry ns (?K (ns ! i)) \<noteq> None"
    by (simp add: firstEntry_def find_None_iff)
  then obtain f where f: "firstEntry ns (?K (ns ! i)) = Some f"
    by auto
  then obtain j where j: "j < length ns" "?K (ns ! j) = ?K (ns ! i)" "f = ns ! j"
    and least: "\<forall>j'<j. ?K (ns ! j') \<noteq> ?K (ns ! i)"
    by (auto simp: firstEntry_def find_Some_iff)
  from least same0 have "\<not> j0 < j" by blast
  with j0(1) have "j < i" by simp
  with i j least err f show ?thesis
    by (intro exI[of _ i] exI[of _ j]) simp
qed

lemma exampleMetadata_run:
  "visit_metadata exampleMetadata [] =
     (AFFMetadata
        [(''a'', WithLocation
           (AFFMetadataEntry (WithLocation ''a'' (exampleLocation 0 0))
              (WithLocation ''1'' (exampleLocation 2 2)))
           (exampleLocation 0 2))]
        (exampleLocation 12 12),
      [\<lparr>message = ''\"a\" is defined twice in the metadata section.'',
        errorLocation = exampleLocation 4 4, severity = Error,
        relatedInfo = Some [AFFErrorRelatedInfo ''Previous defination'' (exampleLocation 0 0)]\<rparr>,
       \<lparr>message = ''\"a\" is defined twice in the metadata section.'',
        errorLocation = exampleLocation 8 8, severity = Error,
        relatedInfo = Some [AFFErrorRelatedInfo ''Previous defination'' (exampleLocation 0 0)]\<rparr>])"
  by (simp add: visit_metadata_def exampleMetadata_def exampleEntry_def visit_metadataEntry_def
      exampleToken_def exampleLocation_def locationFromToken_def Let_def)

text \<open>
  C3, as stated, fails. In the section \<open>a:1 a:2 a:3\<close> the entry before the third is the
  second, whose key is at offset 4; the error for the third entry cites the key at offset
  0, the first entry.
\<close>

theorem duplicate_key_cites_preceding_counterexample:
  "snd (visit_metadata exampleMetadata []) =
      [\<lparr>message = ''\"a\" is defined twice in the metadata section.'',
        errorLocation = locationFromToken (keyToken (exampleEntry 4 ''a'' ''2'')),
        severity = Error,
        relatedInfo = Some [AFFErrorRelatedInfo ''Previous defination''
          (locationFromToken (keyToken (exampleEntry 0 ''a'' ''1'')))]\<rparr>,
       \<lparr>message = ''\"a\" is defined twice in the metadata section.'',
        errorLocation = locationFromToken (keyToken (exampleEntry 8 ''a'' ''3'')),
        severity = Error,
        relatedInfo = Some [AFFErrorRelatedInfo ''Previous defination''
          (locationFromToken (keyToken (exampleEntry 0 ''a'' ''1'')))]\<rparr>]
   \<and> relatedInfo (snd (visit_metadata exampleMetadata []) ! 1)
       \<noteq> Some [AFFErrorRelatedInfo ''Previous defination''
           (locationFromToken (keyToken (exampleEntry 4 ''a'' ''2'')))]"
  by (simp add: exampleMetadata_run)
     (simp add: exampleEntry_def exampleToken_def exampleLocation_def locationFromToken_def)

text \<open>
  C3, amended. Every error that the lowering of a metadata section adds is the error of
  an entry \<open>i\<close> whose key an earlier entry has: it is located at the key of entry \<open>i\<close>, and
  its related information is the location of the key of entry \<open>j\<close>, the first entry of the
  section with that key (no entry before \<open>j\<close> has the key). This is the entry just before
  the duplicate only when no entry between them has the key.
\<close>

theorem duplicate_key_cites_first_entry:
  assumes "visit_metadata ctx errors = (metadata, errors')"
    and "err \<in> set (drop (length errors) errors')"
  shows "\<exists>i j. j < i \<and> i < length (metadataEntries ctx)
    \<and> image (keyToken (metadataEntries ctx ! j)) = image (keyToken (metadataEntries ctx ! i))
    \<and> (\<forall>j'<j. image (keyToken (metadataEntries ctx ! j'))
          \<noteq> image (keyToken (metadataEntries ctx ! i)))
    \<and> err =
        \<lparr>message = ''\"'' @ image (keyToken (metadataEntries ctx ! i))
           @ ''\" is defined twice in the metadata section.'',
         errorLocation = locationFromToken (keyToken (metadataEntries ctx ! i)),
         severity = Error,
         relatedInfo = Some [AFFErrorRelatedInfo ''Previous defination''
           (locationFromToken (keyToken (metadataEntries ctx ! j)))]\<rparr>"
proof -
  from visit_metadata_spec(1)[OF assms(1)] assms(2)
  have "err \<in> set (spec_duplicateKeyErrors (metadataEntries ctx))"
    by simp
  then show ?thesis
    by (rule spec_duplicateKeyErrors_member)
qed

theorem duplicate_key_cites_first_entry_witness:
  "visit_metadata exampleMetadata [] =
     (AFFMetadata
        [(''a'', WithLocation
           (AFFMetadataEntry (WithLocation ''a'' (exampleLocation 0 0))
              (WithLocation ''1'' (exampleLocation 2 2)))
           (exampleLocation 0 2))]
        (exampleLocation 12 12),
      [\<lparr>message = ''\"a\" is defined twice in the metadata section.'',
        errorLocation = exampleLocation 4 4, severity = Error,
        relatedInfo = Some [AFFErrorRelatedInfo ''Previous defination'' (exampleLocation 0 0)]\<rparr>,
       \<lparr>message = ''\"a\" is defined twice in the metadata section.'',
        errorLocation = exampleLocation 8 8, severity = Error,
        relatedInfo = Some [AFFErrorRelatedInfo ''Previous defination'' (exampleLocation 0 0)]\<rparr>])
   \<and> (\<exists>i j. j < i \<and> i < length (metadataEntries exampleMetadata)
      \<and> image (keyToken (metadataEntries exampleMetadata ! j)) =
          image (keyToken (metadataEntries exampleMetadata ! i))
      \<and> (\<forall>j'<j. image (keyToken (metadataEntries exampleMetadata ! j'))
            \<noteq> image (keyToken (metadataEntries exampleMetadata ! i)))
      \<and> \<lparr>message = ''\"a\" is defined twice in the metadata section.'',
          errorLocation = exampleLocation 8 8, severity = Error,
          relatedInfo = Some [AFFErrorRelatedInfo ''Previous defination'' (exampleLocation 0 0)]\<rparr> =
        \<lparr>message = ''\"'' @ image (keyToken (metadataEntries exampleMetadata ! i))
           @ ''\" is defined twice in the metadata section.'',
         errorLocation = locationFromToken (keyToken (metadataEntries exampleMetadata ! i)),
         severity = Error,
         relatedInfo = Some [AFFErrorRelatedInfo ''Previous defination''
           (locationFromToken (keyToken (metadataEntries exampleMetadata ! j)))]\<rparr>)"
proof -
  have member: "\<lparr>message = ''\"a\" is defined twice in the metadata section.'',
          errorLocation = exampleLocation 8 8, severity = Error,
          relatedInfo = Some [AFFErrorRelatedInfo ''Previous defination'' (exampleLocation 0 0)]\<rparr>
      \<in> set (drop (length ([] :: AFFError list))
          [\<lparr>message = ''\"a\" is defined twice in the metadata section.'',
            errorLocation = exampleLocation 4 4, severity = Error,
            relatedInfo = Some [AFFErrorRelatedInfo ''Previous defination'' (exampleLocation 0 0)]\<rparr>,
           \<lparr>message = ''\"a\" is defined twice in the metadata section.'',
            errorLocation = exampleLocation 8 8, severity = Error,
            relatedInfo = Some [AFFErrorRelatedInfo ''Previous defination'' (exampleLocation 0 0)]\<rparr>])"
    by simp
  from exampleMetadata_run duplicate_key_cites_first_entry[OF exampleMetadata_run member]
  show ?thesis by (rule conjI)
qed

text \<open>
  C4. The lowering of a metadata section goes through the entries from left to right. The
  errors it adds are exactly those of the specification: one for each entry whose key an
  entry to its left has, in the order of the source, with the key location of the first
  entry of that key as related information. The resulting map has every key of the
  section once, in the order of the first occurrences, and the entry it holds for a key
  is the first entry of that key, with the location of its node.
\<close>

theorem metadata_keeps_first_entry:
  assumes "visit_metadata ctx errors = (metadata, errors')"
  shows "errors' = errors @ spec_duplicateKeyErrors (metadataEntries ctx)
    \<and> distinct (map fst (metadataData metadata))
    \<and> map fst (metadataData metadata) =
        rev (remdups (rev (map (\<lambda>n. image (keyToken n)) (metadataEntries ctx))))
    \<and> (\<forall>k. map_of (metadataData metadata) k =
          map_option (\<lambda>n. WithLocation (visit_metadataEntry n) (entryLocation n))
            (firstEntry (metadataEntries ctx) k))"
proof -
  note spec = visit_metadata_spec[OF assms]
  from spec(2) have "distinct (map fst (metadataData metadata))"
    by simp
  with spec(1,2,3) show ?thesis by blast
qed

theorem metadata_keeps_first_entry_witness:
  "visit_metadata exampleMetadata [] =
     (AFFMetadata
        [(''a'', WithLocation
           (AFFMetadataEntry (WithLocation ''a'' (exampleLocation 0 0))
              (WithLocation ''1'' (exampleLocation 2 2)))
           (exampleLocation 0 2))]
        (exampleLocation 12 12),
      [\<lparr>message = ''\"a\" is defined twice in the metadata section.'',
        errorLocation = exampleLocation 4 4, severity = Error,
        relatedInfo = Some [AFFErrorRelatedInfo ''Previous defination'' (exampleLocation 0 0)]\<rparr>,
       \<lparr>message = ''\"a\" is defined twice in the metadata section.'',
        errorLocation = exampleLocation 8 8, severity = Error,
        relatedInfo = Some [AFFErrorRelatedInfo ''Previous defination'' (exampleLocation 0 0)]\<rparr>])
   \<and> spec_duplicateKeyErrors (metadataEntries exampleMetadata) =
      [\<lparr>message = ''\"a\" is defined twice in the metadata section.'',
        errorLocation = exampleLocation 4 4, severity = Error,
        relatedInfo = Some [AFFErrorRelatedInfo ''Previous defination'' (exampleLocation 0 0)]\<rparr>,
       \<lparr>message = ''\"a\" is defined twice in the metadata section.'',
        errorLocation = exampleLocation 8 8, severity = Error,
        relatedInfo = Some [AFFErrorRelatedInfo ''Previous defination'' (exampleLocation 0 0)]\<rparr>]
   \<and> firstEntry (metadataEntries exampleMetadata) ''a'' = Some (exampleEntry 0 ''a'' ''1'')"
proof -
  note inst = metadata_keeps_first_entry[OF exampleMetadata_run]
  from inst have 1: "spec_duplicateKeyErrors (metadataEntries exampleMetadata) =
      [\<lparr>message = ''\"a\" is defined twice in the metadata section.'',
        errorLocation = exampleLocation 4 4, severity = Error,
        relatedInfo = Some [AFFErrorRelatedInfo ''Previous defination'' (exampleLocation 0 0)]\<rparr>,
       \<lparr>message = ''\"a\" is defined twice in the metadata section.'',
        errorLocation = exampleLocation 8 8, severity = Error,
        relatedInfo = Some [AFFErrorRelatedInfo ''Previous defination'' (exampleLocation 0 0)]\<rparr>]"
    by simp
  have 2: "firstEntry (metadataEntries exampleMetadata) ''a'' = Some (exampleEntry 0 ''a'' ''1'')"
    by (simp add: firstEntry_def exampleMetadata_def exampleEntry_def exampleToken_def)
  from exampleMetadata_run 1 2 show ?thesis by (intro conjI)
qed

section \<open>Fractional digits of floats\<close>

lemma checkFloat_append:
  "checkFloat float errors =
     errors @
     (if digit (data float) = 2 then []
      else [\<lparr>message = ''Float values should have exact 2 digits in its fractional part.'',
              errorLocation = location float, severity = Warning, relatedInfo = None\<rparr>])"
  by (simp add: checkFloat_def)

lemma floatDigitChecker_loop_append:
  "floatDigitChecker_loop items errors =
     errors @
     concat (map (\<lambda>item.
       let warn = (\<lambda>float.
         if digit (data float) = 2 then []
         else [\<lparr>message = ''Float values should have exact 2 digits in its fractional part.'',
                 errorLocation = location float, severity = Warning, relatedInfo = None\<rparr>])
       in case data item of
            Timing tagLocation time bpm segment \<Rightarrow> warn bpm @ warn segment
          | Arc tagLocation start end' xStart xEnd arcKind yStart yEnd colorId effect isLine arctaps \<Rightarrow>
              warn xStart @ warn xEnd @ warn yStart @ warn yEnd
          | _ \<Rightarrow> []) items)"
proof (induction items errors rule: floatDigitChecker_loop.induct)
  case (1 errors)
  then show ?case by simp
next
  case (2 item rest errors)
  show ?case
  proof (cases "data item")
    case (Timing tg t b s)
    with "2.IH" show ?thesis
      by (simp add: checkFloat_append Let_def)
  next
    case (Tap t k)
    with "2.IH" show ?thesis by (simp add: Let_def)
  next
    case (Hold tg s e k)
    with "2.IH" show ?thesis by (simp add: Let_def)
  next
    case (Arc tg s e xs xe ak ys ye c ef il ats)
    with "2.IH" show ?thesis
      by (simp add: checkFloat_append Let_def)
  next
    case (Arctap tg t)
    with "2.IH" show ?thesis by (simp add: Let_def)
  qed
qed

lemma indexOf_first:
  "c \<notin> set whole \<Longrightarrow> indexOf (whole @ c # fraction) c = int (length whole)"
  by (induction whole) (auto simp: Let_def)

lemma values_map_nth:
  "values_map tokens = Inr vs \<Longrightarrow> i < length tokens \<Longrightarrow>
     length vs = length tokens \<and> tokenValue (tokens ! i) = Inr (data (vs ! i))
     \<and> location (vs ! i) = locationFromToken (tokens ! i)"
proof (induction tokens arbitrary: vs i)
  case Nil
  then show ?case by simp
next
  case (Cons token rest)
  from Cons.prems(1) obtain v vs' where v: "tokenValue token = Inr v"
    and rest: "values_map rest = Inr vs'"
    and vs: "vs = WithLocation v (locationFromToken token) # vs'"
    by (auto split: sum.splits)
  show ?case
  proof (cases i)
    case 0
    from Cons.prems(1) rest vs have "length vs = length (token # rest)"
      using Cons.IH[OF rest] by (cases rest) (auto split: sum.splits)
    with 0 v vs show ?thesis by simp
  next
    case (Suc j)
    with Cons.prems(2) have "j < length rest" by simp
    from Cons.IH[OF rest this] Suc vs show ?thesis by simp
  qed
qed

text \<open>
  C5. The float digit checker goes through the items of the file in their order and adds,
  for the \<open>bpm\<close> and the \<open>segment\<close> of a timing and for the \<open>xStart\<close>, \<open>xEnd\<close>, \<open>yStart\<close> and
  \<open>yEnd\<close> of an arc, in this order, exactly one warning at the location of the value when
  its count of fractional digits is not 2, and nothing otherwise; for the other items it
  adds nothing. The count that the lowering of the values records for a float token is
  the length of its text minus the index of the first decimal point minus one, which is
  the number of characters after that point.
\<close>

theorem floatDigitChecker_warnings:
  "floatDigitChecker file errors =
     errors @
     concat (map (\<lambda>item.
       let warn = (\<lambda>float.
         if digit (data float) = 2 then []
         else [\<lparr>message = ''Float values should have exact 2 digits in its fractional part.'',
                 errorLocation = location float, severity = Warning, relatedInfo = None\<rparr>])
       in case data item of
            Timing tagLocation time bpm segment \<Rightarrow> warn bpm @ warn segment
          | Arc tagLocation start end' xStart xEnd arcKind yStart yEnd colorId effect isLine arctaps \<Rightarrow>
              warn xStart @ warn xEnd @ warn yStart @ warn yEnd
          | _ \<Rightarrow> []) (fileItems file))
   \<and> (visit_values ctx = Inr vs \<and> i < length (valueTokens ctx)
        \<and> tokenType (valueTokens ctx ! i) = tt_float \<longrightarrow>
      vs ! i =
        WithLocation
          (VFloat (AFFFloat (ParseFloat (image (valueTokens ctx ! i)))
             (int (length (image (valueTokens ctx ! i)))
                - indexOf (image (valueTokens ctx ! i)) CHR ''.'' - 1)))
          (locationFromToken (valueTokens ctx ! i)))
   \<and> (CHR ''.'' \<notin> set whole \<longrightarrow>
      int (length (whole @ ''.'' @ fraction)) - indexOf (whole @ ''.'' @ fraction) CHR ''.'' - 1
        = int (length fraction))"
proof -
  have 1: "floatDigitChecker file errors =
     errors @
     concat (map (\<lambda>item.
       let warn = (\<lambda>float.
         if digit (data float) = 2 then []
         else [\<lparr>message = ''Float values should have exact 2 digits in its fractional part.'',
                 errorLocation = location float, severity = Warning, relatedInfo = None\<rparr>])
       in case data item of
            Timing tagLocation time bpm segment \<Rightarrow> warn bpm @ warn segment
          | Arc tagLocation start end' xStart xEnd arcKind yStart yEnd colorId effect isLine arctaps \<Rightarrow>
              warn xStart @ warn xEnd @ warn yStart @ warn yEnd
          | _ \<Rightarrow> []) (fileItems file))"
    unfolding floatDigitChecker_def by (rule floatDigitChecker_loop_append)
  have 2: "visit_values ctx = Inr vs \<and> i < length (valueTokens ctx)
        \<and> tokenType (valueTokens ctx ! i) = tt_float \<longrightarrow>
      vs ! i =
        WithLocation
          (VFloat (AFFFloat (ParseFloat (image (valueTokens ctx ! i)))
             (int (length (image (valueTokens ctx ! i)))
                - indexOf (image (valueTokens ctx ! i)) CHR ''.'' - 1)))
          (locationFromToken (valueTokens ctx ! i))"
  proof (intro impI, elim conjE)
    assume run: "visit_values ctx = Inr vs" and i: "i < length (valueTokens ctx)"
      and float: "tokenType (valueTokens ctx ! i) = tt_float"
    from values_map_nth[OF run[unfolded visit_values_def] i] float
    show "vs ! i =
        WithLocation
          (VFloat (AFFFloat (ParseFloat (image (valueTokens ctx ! i)))
             (int (length (image (valueTokens ctx ! i)))
                - indexOf (image (valueTokens ctx ! i)) CHR ''.'' - 1)))
          (locationFromToken (valueTokens ctx ! i))"
      by (cases "vs ! i") (auto simp: tokenValue_def)
  qed
  have 3: "CHR ''.'' \<notin> set whole \<longrightarrow>
      int (length (whole @ ''.'' @ fraction)) - indexOf (whole @ ''.'' @ fraction) CHR ''.'' - 1
        = int (length fraction)"
    by (simp add: indexOf_first)
  from 1 2 3 show ?thesis by (intro conjI)
qed

text \<open>
  The theorem at a file with the timing \<open>timing(0,120.5,4.00)\<close> and the arc of the example:
  the only warning is for \<open>120.5\<close>, which has one fractional digit.
\<close>

lemma exampleTimingValues:
  "visit_values (CstValues (exampleLocation 6 19) exampleTimingTokens) =
     Inr [WithLocation (VInt (AFFInt (Integer 0))) (exampleLocation 7 7),
          WithLocation (VFloat (AFFFloat (ParseFloat ''120.5'') 1)) (exampleLocation 9 13),
          WithLocation (VFloat (AFFFloat (ParseFloat ''4.00'') 2)) (exampleLocation 15 18)]"
  by code_simp

theorem floatDigitChecker_warnings_witness:
  "floatDigitChecker exampleFile [] =
     [\<lparr>message = ''Float values should have exact 2 digits in its fractional part.'',
       errorLocation = exampleLocation 9 13, severity = Warning, relatedInfo = None\<rparr>]
   \<and> visit_values (CstValues (exampleLocation 6 19) exampleTimingTokens) =
     Inr [WithLocation (VInt (AFFInt (Integer 0))) (exampleLocation 7 7),
          WithLocation (VFloat (AFFFloat (ParseFloat ''120.5'') 1)) (exampleLocation 9 13),
          WithLocation (VFloat (AFFFloat (ParseFloat ''4.00'') 2)) (exampleLocation 15 18)]
   \<and> int (length ''120.5'') - indexOf ''120.5'' CHR ''.'' - 1 = 1
   \<and> int (length ''4.00'') - indexOf ''4.00'' CHR ''.'' - 1 = 2"
proof -
  note a = floatDigitChecker_warnings
    [of exampleFile "[]" "CstValues (exampleLocation 6 19) exampleTimingTokens"
        "[WithLocation (VInt (AFFInt (Integer 0))) (exampleLocation 7 7),
          WithLocation (VFloat (AFFFloat (ParseFloat ''120.5'') 1)) (exampleLocation 9 13),
          WithLocation (VFloat (AFFFloat (ParseFloat ''4.00'') 2)) (exampleLocation 15 18)]"
        1 "''120''" "''5''"]
  note b = floatDigitChecker_warnings
    [where whole = "''4''" and fraction = "''00''", THEN conjunct2, THEN conjunct2]
  from a have 1: "floatDigitChecker exampleFile [] =
     [\<lparr>message = ''Float values should have exact 2 digits in its fractional part.'',
       errorLocation = exampleLocation 9 13, severity = Warning, relatedInfo = None\<rparr>]"
    by (simp add: exampleFile_def exampleTiming_def exampleArc_def)
  from a have 2: "int (length ''120.5'') - indexOf ''120.5'' CHR ''.'' - 1 = 1"
    by simp
  from b have 3: "int (length ''4.00'') - indexOf ''4.00'' CHR ''.'' - 1 = 2"
    by simp
  from 1 exampleTimingValues 2 3 show ?thesis by (intro conjI)
qed

section \<open>Arctaps as items and as subevents\<close>

lemma notNull_member: "x \<in> set (notNull rs) \<longleftrightarrow> Some x \<in> set rs"
  by (induction rs rule: notNull.induct) auto

lemma visit_item_Some:
  assumes "visit_item ctx errors = Inr (Some item, errors')"
  shows "\<exists>ev. visit_event (itemEvent ctx) errors = Inr (Some ev, errors')
    \<and> item = WithLocation ev (eventLocation (itemEvent ctx)) \<and> kindOfEvent ev \<noteq> ''arctap''"
proof -
  from assms obtain r e where run: "visit_event (itemEvent ctx) errors = Inr (r, e)"
    by (auto simp: visit_item_def Let_def andThen_Inr_iff)
  with assms show ?thesis
    by (cases r) (auto simp: visit_item_def Let_def split: AFFEvent.splits)
qed



lemma items_map_member:
  "items_map nodes errors = Inr (results, errors') \<Longrightarrow> Some item \<in> set results \<Longrightarrow>
     \<exists>node e1 e2. visit_item node e1 = Inr (Some item, e2)"
proof (induction nodes arbitrary: errors results)
  case Nil
  then show ?case by simp
next
  case (Cons node rest)
  from Cons.prems(1) obtain r e1 rs where
    first: "visit_item node errors = Inr (r, e1)" and
    others: "items_map rest e1 = Inr (rs, errors')" and
    results: "results = r # rs"
    by (auto simp: andThen_Inr_iff)
  from Cons.prems(2) results consider "r = Some item" | "Some item \<in> set rs" by auto
  then show ?case
  proof cases
    case 1
    with first show ?thesis by blast
  next
    case 2
    with Cons.IH[OF others] show ?thesis by simp
  qed
qed

lemma affToAST_items:
  "affToAST aff = Inr (file, errors) \<Longrightarrow> item \<in> set (fileItems file) \<Longrightarrow>
     \<exists>nodes e0 results. items_map nodes e0 = Inr (results, errors) \<and> Some item \<in> set results
       \<and> nodes = itemsItems (affItems aff)"
  by (auto simp: affToAST_def visit_aff_def visit_items_def andThen_Inr_iff notNull_member
      Let_def split: prod.splits) blast



lemma exampleAff_run:
  "affToAST exampleAff =
     Inr (exampleAffFile,
       [\<lparr>message = ''\"a\" is defined twice in the metadata section.'',
         errorLocation = exampleLocation 4 4, severity = Error,
         relatedInfo = Some [AFFErrorRelatedInfo ''Previous defination'' (exampleLocation 0 0)]\<rparr>,
        \<lparr>message = ''\"a\" is defined twice in the metadata section.'',
         errorLocation = exampleLocation 8 8, severity = Error,
         relatedInfo = Some [AFFErrorRelatedInfo ''Previous defination'' (exampleLocation 0 0)]\<rparr>,
        \<lparr>message = ''Event with type \"arctap\" should not be used as an item.'',
         errorLocation = exampleLocation 47 52, severity = Error, relatedInfo = None\<rparr>])"
  by code_simp



section \<open>Results of the value parsers\<close>








section \<open>Domain values of a lowered file\<close>

lemma visit_event_inRange:
  assumes "visit_event node errors = Inr (Some ev, errors')"
  shows "inRange ev"
proof (cases node)
  case (CstEvent nodeLocation word valuesNode subeventsNode)
  with assms show ?thesis
    by (auto simp: andThen_Inr_iff Let_def split: sum.splits option.splits if_splits
        dest: tap_inRange hold_inRange arctap_inRange timing_inRange arc_inRange)
qed

lemma affToAST_item_inRange:
  assumes "affToAST aff = Inr (file, errors)" and "item \<in> set (fileItems file)"
  shows "inRange (data item)"
proof -
  from affToAST_items[OF assms] obtain nodes e0 results where
    "items_map nodes e0 = Inr (results, errors)" and "Some item \<in> set results"
    by blast
  from items_map_member[OF this] obtain node e1 e2 where
    "visit_item node e1 = Inr (Some item, e2)"
    by blast
  from visit_item_Some[OF this] obtain ev where
    "visit_event (itemEvent node) e1 = Inr (Some ev, e2)" and "data item = ev"
    by auto
  then show ?thesis
    by (auto dest: visit_event_inRange)
qed

text \<open>
  C8. In every file that the lowering returns, the domain values of every item are in
  their sets: the track id of a tap and of a hold is 1, 2, 3 or 4; the arc kind of an arc
  is one of \<open>b\<close>, \<open>s\<close>, \<open>si\<close>, \<open>so\<close>, \<open>sisi\<close>, \<open>siso\<close>, \<open>soso\<close>, \<open>sosi\<close>, its color id is 0, 1 or
  2, its effect is \<open>none\<close>, \<open>full\<close> or \<open>incremental\<close>, and \<open>isLine\<close> is a boolean. A timing and the
  arctaps of an arc hold no domain value.
\<close>

theorem domain_values_in_range:
  assumes "affToAST aff = Inr (file, errors)" and "item \<in> set (fileItems file)"
  shows "case data item of
       Tap time trackId \<Rightarrow> trackIdValue (data trackId) \<in> {1, 2, 3, 4}
     | Hold tagLocation start end' trackId \<Rightarrow> trackIdValue (data trackId) \<in> {1, 2, 3, 4}
     | Arc tagLocation start end' xStart xEnd arcKind yStart yEnd colorId effect isLine arctaps \<Rightarrow>
         arcKindValue (data arcKind)
           \<in> {''b'', ''s'', ''si'', ''so'', ''sisi'', ''siso'', ''soso'', ''sosi''}
         \<and> colorIdValue (data colorId) \<in> {0, 1, 2}
         \<and> effectValue (data effect) \<in> {''none'', ''full'', ''incremental''}
         \<and> boolValue (data isLine) \<in> {True, False}
     | _ \<Rightarrow> True"
  using affToAST_item_inRange[OF assms]
  by (cases "data item")
     (simp_all add: affTrackIds_def affArcKinds_def affColorIds_def affEffects_def)

theorem domain_values_in_range_witness:
  "affToAST exampleAff =
     Inr (exampleAffFile,
       [\<lparr>message = ''\"a\" is defined twice in the metadata section.'',
         errorLocation = exampleLocation 4 4, severity = Error,
         relatedInfo = Some [AFFErrorRelatedInfo ''Previous defination'' (exampleLocation 0 0)]\<rparr>,
        \<lparr>message = ''\"a\" is defined twice in the metadata section.'',
         errorLocation = exampleLocation 8 8, severity = Error,
         relatedInfo = Some [AFFErrorRelatedInfo ''Previous defination'' (exampleLocation 0 0)]\<rparr>,
        \<lparr>message = ''Event with type \"arctap\" should not be used as an item.'',
         errorLocation = exampleLocation 47 52, severity = Error, relatedInfo = None\<rparr>])
   \<and> hd (fileItems exampleAffFile) \<in> set (fileItems exampleAffFile)
   \<and> (case data (hd (fileItems exampleAffFile)) of
       Tap time trackId \<Rightarrow> trackIdValue (data trackId) \<in> {1, 2, 3, 4}
     | Hold tagLocation start end' trackId \<Rightarrow> trackIdValue (data trackId) \<in> {1, 2, 3, 4}
     | Arc tagLocation start end' xStart xEnd arcKind yStart yEnd colorId effect isLine arctaps \<Rightarrow>
         arcKindValue (data arcKind)
           \<in> {''b'', ''s'', ''si'', ''so'', ''sisi'', ''siso'', ''soso'', ''sosi''}
         \<and> colorIdValue (data colorId) \<in> {0, 1, 2}
         \<and> effectValue (data effect) \<in> {''none'', ''full'', ''incremental''}
         \<and> boolValue (data isLine) \<in> {True, False}
     | _ \<Rightarrow> True)"
proof -
  have member: "hd (fileItems exampleAffFile) \<in> set (fileItems exampleAffFile)"
    by (simp add: exampleAffFile_def)
  from exampleAff_run member domain_values_in_range[OF exampleAff_run member]
  show ?thesis by (intro conjI)
qed

end
